theory Spec2Isabelle
  imports Main "HOL-Library.Word"
begin

unbundle bit_operations_syntax

section \<open>Go values shared by both resolvers\<close>

text \<open>
  A \<open>net.IP\<close> is a byte slice; the nil slice and the empty slice are both \<open>[]\<close>.
  A call that can panic (an index out of range) returns \<open>Panic\<close>; every other
  outcome, Go's error results included, is a \<open>Return\<close>.
\<close>

type_synonym byte = "8 word"
type_synonym IP = "byte list"

datatype 'a go = Panic string | Return 'a

datatype numerr = ErrSyntax | ErrRange

text \<open>
  Go errors as values. \<open>ErrorString\<close> is \<open>errors.New\<close>; \<open>Errorf\<close> is
  \<open>fmt.Errorf\<close>, kept as its format and arguments; \<open>NumError\<close> and
  \<open>TimeParseError\<close> are the failures of \<open>strconv.Atoi\<close> and \<open>time.Parse\<close> on
  the given text; \<open>Foreign\<close> is an error made by a collaborator outside these files
  (the DNS resolver, the socket, the CIDR parser, the country table).
\<close>

datatype error =
    ErrorString string
  | Errorf string "fmtarg list"
  | NumError string numerr
  | TimeParseError string
  | Foreign string
and fmtarg = ArgS string | ArgD int | ArgE error

text \<open>\<open>time.Time\<close> values of the layout \<open>2006-01-02\<close>: year, month, day.\<close>

datatype Time = Date nat nat nat

definition zeroTime :: Time where
  "zeroTime = Date 1 1 1"

record IPNet =
  net_IP :: IP
  Mask :: "byte list"

record ('c, 'n) Response =
  IP :: IP
  ASN :: int
  Name :: 'n
  Country :: 'c
  Registry :: string
  Range' :: "IPNet option"
  Allocated :: Time

section \<open>Library functions of \<open>bytes\<close>, \<open>strings\<close>, \<open>strconv\<close> and \<open>time\<close>\<close>

definition HasPrefix :: "string \<Rightarrow> string \<Rightarrow> bool" where
  "HasPrefix s p = (take (length p) s = p)"

definition HasSuffix :: "string \<Rightarrow> string \<Rightarrow> bool" where
  "HasSuffix s p = (length p \<le> length s \<and> drop (length s - length p) s = p)"

text \<open>
  \<open>bytes.TrimLeft(s, cutset)\<close> for an ASCII cutset: every leading byte that occurs in
  the cutset is removed, whatever its position in the cutset.
\<close>

definition TrimLeft :: "string \<Rightarrow> string \<Rightarrow> string" where
  "TrimLeft s cutset = dropWhile (\<lambda>c. c \<in> set cutset) s"

text \<open>
  \<open>Split(s, "|")\<close> of \<open>bytes\<close> and of \<open>strings\<close>: the fields between the separators,
  one more than there are separators.
\<close>

fun Split :: "string \<Rightarrow> char \<Rightarrow> string list" where
  "Split [] sep = [[]]"
| "Split (c # s) sep =
     (if c = sep then [] # Split s sep
      else (case Split s sep of [] \<Rightarrow> [[c]] | f # fs \<Rightarrow> (c # f) # fs))"

text \<open>
  \<open>TrimSpace\<close> of \<open>bytes\<close> and of \<open>strings\<close> removes the leading and trailing white
  space of Unicode, read as UTF-8: the six ASCII spaces, U+0085, U+00A0, U+1680,
  U+2000 to U+200A, U+2028, U+2029, U+202F, U+205F and U+3000.
\<close>

definition unicode_spaces :: "string list" where
  "unicode_spaces =
    [[CHR 0x09], [CHR 0x0A], [CHR 0x0B], [CHR 0x0C], [CHR 0x0D], [CHR 0x20],
     [CHR 0xC2, CHR 0x85], [CHR 0xC2, CHR 0xA0],
     [CHR 0xE1, CHR 0x9A, CHR 0x80],
     [CHR 0xE2, CHR 0x80, CHR 0x80], [CHR 0xE2, CHR 0x80, CHR 0x81],
     [CHR 0xE2, CHR 0x80, CHR 0x82], [CHR 0xE2, CHR 0x80, CHR 0x83],
     [CHR 0xE2, CHR 0x80, CHR 0x84], [CHR 0xE2, CHR 0x80, CHR 0x85],
     [CHR 0xE2, CHR 0x80, CHR 0x86], [CHR 0xE2, CHR 0x80, CHR 0x87],
     [CHR 0xE2, CHR 0x80, CHR 0x88], [CHR 0xE2, CHR 0x80, CHR 0x89],
     [CHR 0xE2, CHR 0x80, CHR 0x8A],
     [CHR 0xE2, CHR 0x80, CHR 0xA8], [CHR 0xE2, CHR 0x80, CHR 0xA9],
     [CHR 0xE2, CHR 0x80, CHR 0xAF], [CHR 0xE2, CHR 0x81, CHR 0x9F],
     [CHR 0xE3, CHR 0x80, CHR 0x80]]"

definition spaceWidth :: "string \<Rightarrow> nat" where
  "spaceWidth s = (case find (HasPrefix s) unicode_spaces of None \<Rightarrow> 0 | Some p \<Rightarrow> length p)"

definition lastSpaceWidth :: "string \<Rightarrow> nat" where
  "lastSpaceWidth s = (case find (HasSuffix s) unicode_spaces of None \<Rightarrow> 0 | Some p \<Rightarrow> length p)"

lemma unicode_spaces_nonempty: "p \<in> set unicode_spaces \<Longrightarrow> p \<noteq> []"
  by (auto simp: unicode_spaces_def)

lemma spaceWidth_drop: "spaceWidth s \<noteq> 0 \<Longrightarrow> length (drop (spaceWidth s) s) < length s"
proof -
  assume w: "spaceWidth s \<noteq> 0"
  then obtain p where p: "find (HasPrefix s) unicode_spaces = Some p" "spaceWidth s = length p"
    by (auto simp: spaceWidth_def split: option.splits)
  from p(1) have "HasPrefix s p" "p \<in> set unicode_spaces"
    by (auto simp: find_Some_iff)
  then have "p \<noteq> []" "take (length p) s = p"
    by (auto simp: unicode_spaces_nonempty HasPrefix_def)
  then have "s \<noteq> []" by auto
  with w show ?thesis by simp
qed

lemma lastSpaceWidth_take:
  "lastSpaceWidth s \<noteq> 0 \<Longrightarrow> length (take (length s - lastSpaceWidth s) s) < length s"
proof -
  assume w: "lastSpaceWidth s \<noteq> 0"
  then obtain p where p: "find (HasSuffix s) unicode_spaces = Some p" "lastSpaceWidth s = length p"
    by (auto simp: lastSpaceWidth_def split: option.splits)
  from p(1) have "HasSuffix s p" "p \<in> set unicode_spaces"
    by (auto simp: find_Some_iff)
  then have "p \<noteq> []" "length p \<le> length s"
    by (auto simp: unicode_spaces_nonempty HasSuffix_def)
  with p(2) show ?thesis by (cases s) auto
qed

function trimLeftSpace :: "string \<Rightarrow> string" where
  "trimLeftSpace s = (if spaceWidth s = 0 then s else trimLeftSpace (drop (spaceWidth s) s))"
  by pat_completeness auto
termination
  by (relation "measure length") (auto simp: spaceWidth_drop simp del: length_drop)

function trimRightSpace :: "string \<Rightarrow> string" where
  "trimRightSpace s =
     (if lastSpaceWidth s = 0 then s else trimRightSpace (take (length s - lastSpaceWidth s) s))"
  by pat_completeness auto
termination
  by (relation "measure length") (auto simp: lastSpaceWidth_take simp del: length_take)

declare trimLeftSpace.simps [simp del] trimRightSpace.simps [simp del]

definition TrimSpace :: "string \<Rightarrow> string" where
  "TrimSpace s = trimRightSpace (trimLeftSpace s)"

text \<open>
  The loop \<open>for i := range tokens\<close> that trims every field, applied to the fields of a
  line.
\<close>

definition trimmed :: "string \<Rightarrow> string list" where
  "trimmed raw = map TrimSpace (Split raw CHR ''|'')"

text \<open>
  \<open>strconv.Atoi\<close> with a 64-bit \<open>int\<close>: an optional sign, then one or more decimal
  digits and nothing else; a value outside the signed 64-bit range is a range error.
\<close>

definition isDigit :: "char \<Rightarrow> bool" where
  "isDigit c = (48 \<le> (of_char c :: nat) \<and> (of_char c :: nat) \<le> 57)"

definition digitsVal :: "string \<Rightarrow> int" where
  "digitsVal s = foldl (\<lambda>n ch. n * 10 + (int (of_char ch) - 48)) 0 s"

definition Atoi :: "string \<Rightarrow> error + int" where
  "Atoi s =
    (let neg = HasPrefix s ''-'';
         ds = (if neg \<or> HasPrefix s ''+'' then drop 1 s else s);
         n = (if neg then - digitsVal ds else digitsVal ds)
     in if ds = [] \<or> \<not> list_all isDigit ds then Inl (NumError s ErrSyntax)
        else if n < - (2 ^ 63) \<or> 2 ^ 63 \<le> n then Inl (NumError s ErrRange)
        else Inr n)"

text \<open>
  \<open>time.Parse("2006-01-02", value)\<close>: four digits, a dash, two digits, a dash, two
  digits and nothing else; the month is 1 to 12 and the day exists in that month.
\<close>

definition isLeap :: "nat \<Rightarrow> bool" where
  "isLeap y = (y mod 4 = 0 \<and> (y mod 400 = 0 \<or> y mod 100 \<noteq> 0))"

definition daysIn :: "nat \<Rightarrow> nat \<Rightarrow> nat" where
  "daysIn m y =
    (if m = 2 then (if isLeap y then 29 else 28)
     else if m = 4 \<or> m = 6 \<or> m = 9 \<or> m = 11 then 30 else 31)"

definition time_Parse :: "string \<Rightarrow> error + Time" where
  "time_Parse v =
    (let y = nat (digitsVal (take 4 v));
         m = nat (digitsVal (take 2 (drop 5 v)));
         d = nat (digitsVal (take 2 (drop 8 v)))
     in if length v = 10 \<and> list_all isDigit (take 4 v) \<and> v ! 4 = CHR ''-''
           \<and> list_all isDigit (take 2 (drop 5 v)) \<and> v ! 7 = CHR ''-''
           \<and> list_all isDigit (take 2 (drop 8 v))
           \<and> 1 \<le> m \<and> m \<le> 12 \<and> 1 \<le> d \<and> d \<le> daysIn m y
        then Inr (Date y m d) else Inl (TimeParseError v))"

section \<open>The reverse-name encoder (\<open>dnsClient.getLookupName\<close>)\<close>

definition hexDigit :: string where
  "hexDigit = ''0123456789abcdef''"

text \<open>The verb \<open>%d\<close> of \<open>fmt.Sprintf\<close> on an unsigned value.\<close>

function fmt_d :: "nat \<Rightarrow> string" where
  "fmt_d n =
    (if n < 10 then [''0123456789'' ! n]
     else fmt_d (n div 10) @ [''0123456789'' ! (n mod 10)])"
  by pat_completeness auto
termination
  by (relation "measure id") auto

declare fmt_d.simps [simp del]

text \<open>\<open>net.IP.To4\<close>: the 4-byte form of an IPv4 address, or nil.\<close>

definition To4 :: "IP \<Rightarrow> IP" where
  "To4 ip =
    (if length ip = 4 then ip
     else if length ip = 16 \<and> list_all (\<lambda>b. b = 0) (take 10 ip)
             \<and> ip ! 10 = 0xff \<and> ip ! 11 = 0xff
     then drop 12 ip
     else [])"

text \<open>
  The inner loop \<open>for j := 0; j <= 3; j++\<close> appends one nibble of the 16-bit word
  \<open>ip[i-2], ip[i-1]\<close> and a separator; the outer loop is \<open>for i := 16; i >= 2; i -= 2\<close>.
\<close>

function nibbles_j :: "IP \<Rightarrow> nat \<Rightarrow> nat \<Rightarrow> string \<Rightarrow> string" where
  "nibbles_j ip i j b =
    (if j \<le> 3 then
       (let v = drop_bit (j * 4)
                  (push_bit 8 (ucast (ip ! (i - 2)) :: 32 word) OR ucast (ip ! (i - 1)))
        in nibbles_j ip i (j + 1) (b @ [hexDigit ! unat (v AND 0xf), CHR ''.'']))
     else b)"
  by pat_completeness auto
termination
  by (relation "measure (\<lambda>(ip, i, j, b). 4 - j)") auto

function words_i :: "IP \<Rightarrow> nat \<Rightarrow> string \<Rightarrow> string" where
  "words_i ip i b = (if 2 \<le> i then words_i ip (i - 2) (nibbles_j ip i 0 b) else b)"
  by pat_completeness auto
termination
  by (relation "measure (\<lambda>(ip, i, b). i)") auto

declare nibbles_j.simps [simp del] words_i.simps [simp del]

definition getLookupName :: "IP \<Rightarrow> (string \<times> error option) go" where
  "getLookupName ip =
    (if length (To4 ip) = 4 then
       (if length ip \<le> 15 then Panic ''index out of range [15]''
        else Return (fmt_d (unat (ip ! 15)) @ ''.'' @ fmt_d (unat (ip ! 14)) @ ''.''
                     @ fmt_d (unat (ip ! 13)) @ ''.'' @ fmt_d (unat (ip ! 12))
                     @ ''.origin.asn.cymru.com'', None))
     else if length ip = 16 then
       Return (take 63 (words_i ip 16 []) @ ''.origin6.asn.cymru.com'', None)
     else
       Return ('''', Some (Errorf ''Could not parse IP. Invalid length (%d)''
                            [ArgD (int (length ip))])))"

section \<open>Collaborators outside these files\<close>

text \<open>
  The country table, the name wrapper, the display strings of an ASN and of an address,
  the address and CIDR parsers of \<open>net\<close>, the DNS resolver and the growth of a full
  slice under \<open>append\<close> are not part of these files: they are parameters. \<open>'c\<close> is
  the type \<open>Country\<close>, \<open>'n\<close> the type \<open>Name\<close>, \<open>'w\<close> the state of the network that
  a DNS query reads and changes. \<open>NewCountryFromCode\<close> returns both of Go's results,
  since the session resolver keeps the country and drops the error.
\<close>

record ('c, 'n, 'w) env =
  NewCountryFromCode :: "string \<Rightarrow> 'c \<times> error option"
  NewName :: "string \<Rightarrow> 'n"
  zeroCountry :: 'c
  zeroName :: 'n
  ASN_String :: "int \<Rightarrow> string"
  IP_String :: "IP \<Rightarrow> string"
  ParseIP :: "string \<Rightarrow> IP"
  ParseCIDR :: "string \<Rightarrow> error + IPNet"
  LookupTXT :: "string \<Rightarrow> 'w \<Rightarrow> (error + string list) \<times> 'w"
  growslice :: "nat \<Rightarrow> nat"

text \<open>The zero value \<open>Response{}\<close>.\<close>

definition zeroResponse :: "('c, 'n, 'w) env \<Rightarrow> ('c, 'n) Response" where
  "zeroResponse E =
    \<lparr>IP = [], ASN = 0, Name = zeroName E, Country = zeroCountry E, Registry = [],
     Range' = None, Allocated = zeroTime\<rparr>"

section \<open>The session resolver (\<open>whoisClient\<close>)\<close>

text \<open>
  The state of a connected client: \<open>written\<close> is everything handed to the buffered
  writer, in order; \<open>flushes\<close> holds the results of the coming calls of \<open>Flush\<close>
  (a call beyond the list succeeds); \<open>incoming\<close> holds the lines the scanner will
  deliver before \<open>Scan\<close> reports the end of its input. A batch returns at its first
  failed \<open>Flush\<close>, so it never writes after one. The mutex serialises whole batches
  and is not part of the state.
\<close>

record whoisClient =
  written :: string
  flushes :: "error option list"
  incoming :: "string list"

definition ncEOL :: string where
  "ncEOL = [CHR 0x0D, CHR 0x0A]"

definition ErrUnexpectedTokens :: error where
  "ErrUnexpectedTokens = ErrorString ''Unexpected tokens while reading Cymru response.''"

definition netcatIPTokensLength :: nat where
  "netcatIPTokensLength = 7"

definition netcatASNTokensLength :: nat where
  "netcatASNTokensLength = 5"

definition w_Write :: "string \<Rightarrow> whoisClient \<Rightarrow> whoisClient" where
  "w_Write s c = c\<lparr>written := written c @ s\<rparr>"

definition w_Flush :: "whoisClient \<Rightarrow> error option \<times> whoisClient" where
  "w_Flush c = (case flushes c of [] \<Rightarrow> (None, c) | r # rs \<Rightarrow> (r, c\<lparr>flushes := rs\<rparr>))"

text \<open>
  The write loop of a batch: one line per query, flushed at once. It returns the value
  of \<open>err\<close> after the loop, which is not nil exactly when the loop returned early.
\<close>

fun write_queries :: "string list \<Rightarrow> whoisClient \<Rightarrow> error option \<times> whoisClient" where
  "write_queries [] c = (None, c)"
| "write_queries (q # qs) c =
     (case w_Flush (w_Write ncEOL (w_Write q c)) of
        (Some e, c') \<Rightarrow> (Some e, c')
      | (None, c') \<Rightarrow> write_queries qs c')"

text \<open>
  The body of the read loop of \<open>LookupIPs\<close> on one line \<open>raw\<close>: the error that makes
  the batch return, or the record that is appended.
\<close>

definition ip_line :: "('c, 'n, 'w) env \<Rightarrow> string \<Rightarrow> error + ('c, 'n) Response" where
  "ip_line E raw =
    (if HasPrefix raw ''Error: '' then
       Inl (ErrorString (TrimSpace (TrimLeft raw ''Error: '')))
     else if length (Split raw CHR ''|'') = netcatIPTokensLength then
       (let tokens = trimmed raw in
        case Atoi (tokens ! 0) of
          Inl e \<Rightarrow> Inl e
        | Inr asn \<Rightarrow>
            (case ParseCIDR E (tokens ! 2) of
               Inl e \<Rightarrow> Inl e
             | Inr n \<Rightarrow>
                 Inr \<lparr>IP = ParseIP E (tokens ! 1), ASN = asn, Name = NewName E (tokens ! 6),
                      Country = fst (NewCountryFromCode E (tokens ! 3)),
                      Registry = tokens ! 4, Range' = Some n,
                      Allocated = (case time_Parse (tokens ! 5) of
                                     Inl e \<Rightarrow> zeroTime | Inr t \<Rightarrow> t)\<rparr>))
     else Inl ErrUnexpectedTokens)"

text \<open>The body of the read loop of \<open>LookupASNs\<close>.\<close>

definition asn_line :: "('c, 'n, 'w) env \<Rightarrow> string \<Rightarrow> error + ('c, 'n) Response" where
  "asn_line E raw =
    (if HasPrefix raw ''Error: '' then
       Inl (ErrorString (TrimSpace (TrimLeft raw ''Error: '')))
     else if length (Split raw CHR ''|'') = netcatASNTokensLength then
       (let tokens = trimmed raw in
        case Atoi (tokens ! 0) of
          Inl e \<Rightarrow> Inl e
        | Inr asn \<Rightarrow>
            Inr \<lparr>IP = [], ASN = asn, Name = NewName E (tokens ! 4),
                 Country = fst (NewCountryFromCode E (tokens ! 1)),
                 Registry = tokens ! 2, Range' = None,
                 Allocated = (case time_Parse (tokens ! 3) of
                                Inl e \<Rightarrow> zeroTime | Inr t \<Rightarrow> t)\<rparr>)
     else Inl ErrUnexpectedTokens)"

text \<open>
  The read loop \<open>for !finished && c.sc.Scan()\<close>, over the lines still to come. \<open>resp\<close>
  and \<open>cp\<close> are the slice built so far and its capacity; the result is the pair
  \<open>(resp, err)\<close> that the batch returns and the lines left unread. A record is
  appended in place while the slice has room; a full slice grows to the capacity the
  runtime picks. The named result \<open>err\<close> is nil whenever the loop ends without a
  return of its own, since every assignment to it that is not nil returns.
\<close>

fun read_loop ::
  "(string \<Rightarrow> error + ('c, 'n) Response) \<Rightarrow> (nat \<Rightarrow> nat) \<Rightarrow> string list \<Rightarrow>
   ('c, 'n) Response list \<Rightarrow> nat \<Rightarrow>
   (('c, 'n) Response list \<times> error option) \<times> string list" where
  "read_loop body grow [] resp cp = ((resp, None), [])"
| "read_loop body grow (raw # rest) resp cp =
     (case body raw of
        Inl e \<Rightarrow> ((resp, Some e), rest)
      | Inr re \<Rightarrow>
          (let cp' = (if length resp < cp then cp else grow cp) in
           if length (resp @ [re]) = cp' then ((resp @ [re], None), rest)
           else read_loop body grow rest (resp @ [re]) cp'))"

definition whois_LookupIPs ::
  "('c, 'n, 'w) env \<Rightarrow> IP list \<Rightarrow> whoisClient \<Rightarrow>
   (('c, 'n) Response list \<times> error option) \<times> whoisClient" where
  "whois_LookupIPs E ips c =
    (case write_queries (map (IP_String E) ips) c of
       (Some e, c') \<Rightarrow> (([], Some e), c')
     | (None, c') \<Rightarrow>
         (case read_loop (ip_line E) (growslice E) (incoming c') [] (length ips) of
            (r, rest) \<Rightarrow> (r, c'\<lparr>incoming := rest\<rparr>)))"

definition whois_LookupASNs ::
  "('c, 'n, 'w) env \<Rightarrow> int list \<Rightarrow> whoisClient \<Rightarrow>
   (('c, 'n) Response list \<times> error option) \<times> whoisClient" where
  "whois_LookupASNs E asns c =
    (case write_queries (map (ASN_String E) asns) c of
       (Some e, c') \<Rightarrow> (([], Some e), c')
     | (None, c') \<Rightarrow>
         (case read_loop (asn_line E) (growslice E) (incoming c') [] (length asns) of
            (r, rest) \<Rightarrow> (r, c'\<lparr>incoming := rest\<rparr>)))"

text \<open>
  The single-item proxies return a pointer (\<open>None\<close> is nil) and the batch's error.
  \<open>LookupIP\<close> tests the length before it takes \<open>resp[0]\<close>; \<open>LookupASN\<close> does not.
\<close>

definition whois_LookupIP ::
  "('c, 'n, 'w) env \<Rightarrow> IP \<Rightarrow> whoisClient \<Rightarrow>
   ((('c, 'n) Response option \<times> error option) \<times> whoisClient) go" where
  "whois_LookupIP E ip c =
    (case whois_LookupIPs E [ip] c of
       ((resp, err), c') \<Rightarrow>
         if length resp = 0 then Return ((None, err), c')
         else Return ((Some (resp ! 0), err), c'))"

definition whois_LookupASN ::
  "('c, 'n, 'w) env \<Rightarrow> int \<Rightarrow> whoisClient \<Rightarrow>
   ((('c, 'n) Response option \<times> error option) \<times> whoisClient) go" where
  "whois_LookupASN E asn c =
    (case whois_LookupASNs E [asn] c of
       ((resp, err), c') \<Rightarrow>
         if 0 < length resp then Return ((Some (resp ! 0), err), c')
         else Panic ''index out of range [0] with length 0'')"

section \<open>The directory resolver (\<open>dnsClient\<close>)\<close>

text \<open>
  Both loops \<open>for _, txt := range txts\<close> return in their first round on every path, so
  only the first TXT record is read: \<open>asn_txt\<close> and \<open>ip_txt\<close> are the loop bodies on
  that record, up to the chained lookup. \<open>LookupIP\<close> and \<open>LookupASN\<close> return either
  a record or an error, never both: the sum type.
\<close>

definition asn_txt :: "('c, 'n, 'w) env \<Rightarrow> int \<Rightarrow> string \<Rightarrow> error + ('c, 'n) Response" where
  "asn_txt E asn txt =
    (if length (Split txt CHR ''|'') = 5 then
       (let values = trimmed txt in
        case NewCountryFromCode E (values ! 1) of
          (country, Some e) \<Rightarrow>
            Inl (Errorf ''Could not parse CountryCode (%s): %s'' [ArgS (values ! 1), ArgE e])
        | (country, None) \<Rightarrow>
            (if values ! 3 = [] then
               Inr \<lparr>IP = [], ASN = asn, Name = NewName E (values ! 4), Country = country,
                    Registry = values ! 2, Range' = None, Allocated = zeroTime\<rparr>
             else
               (case time_Parse (values ! 3) of
                  Inl e \<Rightarrow>
                    Inl (Errorf ''Could not parse date (%s): %s'' [ArgS (values ! 3), ArgE e])
                | Inr t \<Rightarrow>
                    Inr \<lparr>IP = [], ASN = asn, Name = NewName E (values ! 4),
                         Country = country, Registry = values ! 2, Range' = None,
                         Allocated = t\<rparr>)))
     else Inl (Errorf ''Received unrecognized response in AS lookup: %s'' [ArgS txt]))"

definition dns_LookupASN ::
  "('c, 'n, 'w) env \<Rightarrow> int \<Rightarrow> 'w \<Rightarrow> (error + ('c, 'n) Response) \<times> 'w" where
  "dns_LookupASN E asn w =
    (case LookupTXT E (ASN_String E asn @ ''.asn.cymru.com'') w of
       (Inl e, w') \<Rightarrow> (Inl e, w')
     | (Inr [], w') \<Rightarrow> (Inl (Errorf ''No records found'' []), w')
     | (Inr (txt # others), w') \<Rightarrow> (asn_txt E asn txt, w'))"

text \<open>
  The record of \<open>LookupIP\<close> before its name is known: \<open>Name\<close> still has its zero value.
\<close>

definition ip_txt :: "('c, 'n, 'w) env \<Rightarrow> IP \<Rightarrow> string \<Rightarrow> error + ('c, 'n) Response" where
  "ip_txt E ip txt =
    (if length (Split txt CHR ''|'') = 5 then
       (let values = trimmed txt in
        case Atoi (values ! 0) of
          Inl e \<Rightarrow> Inl (Errorf ''Could not parse ASN (%s): %s'' [ArgS (values ! 0), ArgE e])
        | Inr asn \<Rightarrow>
            (case NewCountryFromCode E (values ! 2) of
               (country, Some e) \<Rightarrow>
                 Inl (Errorf ''Could not parse CountryCode (%s): %s''
                        [ArgS (values ! 2), ArgE e])
             | (country, None) \<Rightarrow>
                 (case ParseCIDR E (values ! 1) of
                    Inl e \<Rightarrow>
                      Inl (Errorf ''Could not parse Range (%s): %s'' [ArgS (values ! 1), ArgE e])
                  | Inr n \<Rightarrow>
                      (if values ! 4 = [] then
                         Inr \<lparr>IP = ip, ASN = asn, Name = zeroName E, Country = country,
                              Registry = values ! 3, Range' = Some n, Allocated = zeroTime\<rparr>
                       else
                         (case time_Parse (values ! 4) of
                            Inl e \<Rightarrow>
                              Inl (Errorf ''Could not parse date (%s): %s''
                                     [ArgS (values ! 4), ArgE e])
                          | Inr t \<Rightarrow>
                              Inr \<lparr>IP = ip, ASN = asn, Name = zeroName E, Country = country,
                                   Registry = values ! 3, Range' = Some n,
                                   Allocated = t\<rparr>)))))
     else Inl (Errorf ''Received unrecognized response: %s'' [ArgS txt]))"

text \<open>
  \<open>LookupIP\<close> assigns the error of \<open>getLookupName\<close> to \<open>err\<close> and assigns \<open>err\<close> again
  from \<open>net.LookupTXT\<close> before it reads it: the name goes to the resolver whatever
  the encoder said. The message of the chained lookup's error, \<open>err.Error()\<close>, is kept
  as the error itself.
\<close>

definition dns_LookupIP ::
  "('c, 'n, 'w) env \<Rightarrow> IP \<Rightarrow> 'w \<Rightarrow> ((error + ('c, 'n) Response) \<times> 'w) go" where
  "dns_LookupIP E ip w =
    (case getLookupName ip of
       Panic m \<Rightarrow> Panic m
     | Return (lookupName, err) \<Rightarrow>
         (case LookupTXT E lookupName w of
            (Inl e, w') \<Rightarrow> Return (Inl e, w')
          | (Inr [], w') \<Rightarrow> Return (Inl (Errorf ''No records found'' []), w')
          | (Inr (txt # others), w') \<Rightarrow>
              (case ip_txt E ip txt of
                 Inl e \<Rightarrow> Return (Inl e, w')
               | Inr ret \<Rightarrow>
                   (case dns_LookupASN E (ASN ret) w' of
                      (Inl e, w'') \<Rightarrow>
                        Return (Inl (Errorf ''Could not retrieve ASN (%s): %s''
                                       [ArgS (ASN_String E (ASN ret)), ArgE e]), w'')
                    | (Inr asnResponse, w'') \<Rightarrow>
                        Return (Inr (ret\<lparr>Name := Name asnResponse\<rparr>), w'')))))"

text \<open>
  The batch loops start from \<open>make([]Response, len(...))\<close>, a slice of that many zero
  records, and append to it.
\<close>

fun LookupIPs_loop ::
  "('c, 'n, 'w) env \<Rightarrow> IP list \<Rightarrow> ('c, 'n) Response list \<Rightarrow> 'w \<Rightarrow>
   ((('c, 'n) Response list \<times> error option) \<times> 'w) go" where
  "LookupIPs_loop E [] ret w = Return ((ret, None), w)"
| "LookupIPs_loop E (ip # ips) ret w =
     (case dns_LookupIP E ip w of
        Panic m \<Rightarrow> Panic m
      | Return (Inl e, w') \<Rightarrow> Return ((ret, Some e), w')
      | Return (Inr resp, w') \<Rightarrow> LookupIPs_loop E ips (ret @ [resp]) w')"

definition dns_LookupIPs ::
  "('c, 'n, 'w) env \<Rightarrow> IP list \<Rightarrow> 'w \<Rightarrow>
   ((('c, 'n) Response list \<times> error option) \<times> 'w) go" where
  "dns_LookupIPs E ips w = LookupIPs_loop E ips (replicate (length ips) (zeroResponse E)) w"

fun LookupASNs_loop ::
  "('c, 'n, 'w) env \<Rightarrow> int list \<Rightarrow> ('c, 'n) Response list \<Rightarrow> 'w \<Rightarrow>
   (('c, 'n) Response list \<times> error option) \<times> 'w" where
  "LookupASNs_loop E [] ret w = ((ret, None), w)"
| "LookupASNs_loop E (asn # asns) ret w =
     (case dns_LookupASN E asn w of
        (Inl e, w') \<Rightarrow> ((ret, Some e), w')
      | (Inr resp, w') \<Rightarrow> LookupASNs_loop E asns (ret @ [resp]) w')"

definition dns_LookupASNs ::
  "('c, 'n, 'w) env \<Rightarrow> int list \<Rightarrow> 'w \<Rightarrow>
   (('c, 'n) Response list \<times> error option) \<times> 'w" where
  "dns_LookupASNs E asns w =
     LookupASNs_loop E asns (replicate (length asns) (zeroResponse E)) w"

section \<open>A sample environment\<close>

text \<open>
  Concrete collaborators on which the model runs: a country table of two codes, names
  kept as they are, ASNs shown as \<open>AS\<close> and their digits, a CIDR parser that knows one
  block, and a DNS zone given as a table whose resolver records every name it is asked.
\<close>

definition addr1 :: IP where
  "addr1 = [0, 0, 0, 0, 0, 0, 0, 0, 0, 0, 0xff, 0xff, 192, 0, 2, 1]"

definition sampleCountry :: "string \<Rightarrow> (string \<times> string) \<times> error option" where
  "sampleCountry code =
    (if code = ''US'' then ((''US'', ''United States''), None)
     else if code = ''AU'' then ((''AU'', ''Australia''), None)
     else (('''', ''''), Some (Foreign ''unknown country code'')))"

definition sampleCIDR :: "string \<Rightarrow> error + IPNet" where
  "sampleCIDR s =
    (if s = ''192.0.2.0/24'' then Inr \<lparr>net_IP = [192, 0, 2, 0], Mask = [255, 255, 255, 0]\<rparr>
     else Inl (Foreign ''invalid CIDR address''))"

definition sampleTXT ::
  "(string \<times> string list) list \<Rightarrow> string \<Rightarrow> string list \<Rightarrow>
   (error + string list) \<times> string list" where
  "sampleTXT zone name asked =
    (case map_of zone name of
       None \<Rightarrow> (Inl (Foreign ''no such host''), asked @ [name])
     | Some txts \<Rightarrow> (Inr txts, asked @ [name]))"

definition sample ::
  "(string \<times> string list) list \<Rightarrow> (string \<times> string, string, string list) env" where
  "sample zone =
    \<lparr>NewCountryFromCode = sampleCountry, NewName = (\<lambda>s. s), zeroCountry = ('''', ''''),
     zeroName = '''', ASN_String = (\<lambda>n. ''AS'' @ fmt_d (nat n)),
     IP_String = (\<lambda>ip. ''192.0.2.1''),
     ParseIP = (\<lambda>s. if s = ''192.0.2.1'' then addr1 else []),
     ParseCIDR = sampleCIDR, LookupTXT = sampleTXT zone, growslice = (\<lambda>n. n + 1)\<rparr>"

definition conn :: "string list \<Rightarrow> whoisClient" where
  "conn lines = \<lparr>written = [], flushes = [], incoming = lines\<rparr>"

definition origin_txt1 :: string where
  "origin_txt1 = ''23456 | 192.0.2.0/24 | US | arin | 2000-01-01''"

definition origin_txt2 :: string where
  "origin_txt2 = ''23456 | 192.0.2.0/24 | US | arin | ''"

definition asn_txt1 :: string where
  "asn_txt1 = ''23456 | US | arin | 2000-01-01 | EXAMPLE''"

definition zone1 :: "(string \<times> string list) list" where
  "zone1 =
    [(''1.2.0.192.origin.asn.cymru.com'', [origin_txt1]),
     (''AS23456.asn.cymru.com'', [asn_txt1])]"

definition ip_line1 :: string where
  "ip_line1 = ''23456 | 192.0.2.1 | 192.0.2.0/24 | US | arin | 2000-01-01 | EXAMPLE''"

definition ip_line2 :: string where
  "ip_line2 = ''23456 | 192.0.2.1 | 192.0.2.0/24 | ZZ | arin | | EXAMPLE''"

definition asn_line1 :: string where
  "asn_line1 = ''23456 | US | arin | 2000-01-01 | EXAMPLE''"

definition asn_line2 :: string where
  "asn_line2 = ''23456 | ZZ | arin | | EXAMPLE''"

text \<open>
  Texts that differ from the well-formed ones in one field: a date with month 13, an
  asn field that is not a number, a missing date, a missing name field.
\<close>

definition asn_txt_bad_date :: string where
  "asn_txt_bad_date = ''23456 | US | arin | 2000-13-45 | EXAMPLE''"

definition asn_txt_bad_asn :: string where
  "asn_txt_bad_asn = ''AS23456 | US | arin | 2000-01-01 | EXAMPLE''"

definition asn_txt_no_date :: string where
  "asn_txt_no_date = ''23456 | US | arin | | EXAMPLE''"

definition asn_txt_short :: string where
  "asn_txt_short = ''23456 | US | arin | 2000-01-01''"

definition origin_txt_bad_date :: string where
  "origin_txt_bad_date = ''23456 | 192.0.2.0/24 | US | arin | 2000-13-45''"

definition ip_line_bad_date :: string where
  "ip_line_bad_date = ''23456 | 192.0.2.1 | 192.0.2.0/24 | US | arin | 2000-13-45 | EXAMPLE''"

text \<open>
  Texts for the directory resolver with one field it reads strictly gone wrong, and one
  with an unknown country code before a malformed date.
\<close>

definition asn_txt_bad_country_date :: string where
  "asn_txt_bad_country_date = ''23456 | ZZ | arin | 2000-13-45 | EXAMPLE''"

definition origin_txt_bad_asn :: string where
  "origin_txt_bad_asn = ''AS23456 | 192.0.2.0/24 | US | arin | 2000-01-01''"

definition origin_txt_bad_country :: string where
  "origin_txt_bad_country = ''23456 | 192.0.2.0/24 | ZZ | arin | 2000-01-01''"

definition origin_txt_bad_range :: string where
  "origin_txt_bad_range = ''23456 | 192.0.2.0 | US | arin | 2000-01-01''"

section \<open>What the specification says, in its own words\<close>

text \<open>
  A structurally valid line of the session transport: no error marker, the field
  count of the mode, an asn field that parses and, in address mode, a range that
  parses.
\<close>

definition ip_line_valid :: "('c, 'n, 'w) env \<Rightarrow> string \<Rightarrow> bool" where
  "ip_line_valid E raw =
    (\<not> HasPrefix raw ''Error: '' \<and> length (Split raw CHR ''|'') = 7
     \<and> \<not> isl (Atoi (trimmed raw ! 0)) \<and> \<not> isl (ParseCIDR E (trimmed raw ! 2)))"

definition asn_line_valid :: "string \<Rightarrow> bool" where
  "asn_line_valid raw =
    (\<not> HasPrefix raw ''Error: '' \<and> length (Split raw CHR ''|'') = 5
     \<and> \<not> isl (Atoi (trimmed raw ! 0)))"

text \<open>
  The reverse name of a 16-byte address as the specification words it: the eight
  16-bit words from the last two bytes to the first two, each as its four hex nibbles
  from the least significant one, all 32 nibbles joined by dots, then the v6 suffix.
\<close>

fun dotted :: "string \<Rightarrow> string" where
  "dotted [] = []"
| "dotted [c] = [c]"
| "dotted (c # cs) = c # CHR ''.'' # dotted cs"

definition word16 :: "IP \<Rightarrow> nat \<Rightarrow> nat" where
  "word16 ip k = 256 * unat (ip ! (2 * k)) + unat (ip ! (2 * k + 1))"

definition nibbles_lsf :: "nat \<Rightarrow> string" where
  "nibbles_lsf w = map (\<lambda>j. hexDigit ! (w div 16 ^ j mod 16)) [0, 1, 2, 3]"

definition spec_reverse_name6 :: "IP \<Rightarrow> string" where
  "spec_reverse_name6 ip =
     dotted (concat (map (\<lambda>k. nibbles_lsf (word16 ip k)) [7, 6, 5, 4, 3, 2, 1, 0]))
     @ ''.origin6.asn.cymru.com''"

section \<open>Facts about the library functions and the loops\<close>

lemma write_queries_incoming: "incoming (snd (write_queries qs c)) = incoming c"
proof (induction qs arbitrary: c)
  case Nil
  show ?case by simp
next
  case (Cons q qs)
  have step: "incoming (snd (w_Flush (w_Write ncEOL (w_Write q c)))) = incoming c"
    by (simp add: w_Flush_def w_Write_def split: list.split)
  show ?case
  proof (cases "w_Flush (w_Write ncEOL (w_Write q c))")
    case (Pair r c')
    with step have "incoming c' = incoming c" by simp
    with Pair Cons.IH [of c'] show ?thesis by (cases r) simp_all
  qed
qed

lemma trim_no_match: "TrimSpace (TrimLeft ''Error: no match'' ''Error: '') = ''no match''"
  by code_simp

lemma trim_route_not_found:
  "TrimSpace (TrimLeft ''Error: route not found'' ''Error: '') = ''ute not found''"
  by code_simp

lemma word16_or_add:
  "push_bit 8 (ucast (hi :: 8 word) :: 32 word) OR ucast (lo :: 8 word)
   = push_bit 8 (ucast hi) + ucast lo"
proof (rule disjunctive_add [symmetric])
  fix n
  show "\<not> bit (push_bit 8 (ucast hi :: 32 word)) n \<or> \<not> bit (ucast lo :: 32 word) n"
    by (auto simp: bit_simps dest: bit_imp_le_length)
qed

lemma word16_unat:
  "unat (push_bit 8 (ucast (hi :: 8 word) :: 32 word) OR ucast (lo :: 8 word))
   = 256 * unat hi + unat lo"
proof -
  have h: "unat hi < 256" and l: "unat lo < 256"
    using unsigned_less [of hi, where 'a = nat] unsigned_less [of lo, where 'a = nat]
    by simp_all
  have uh: "unat (ucast hi :: 32 word) = unat hi" and ul: "unat (ucast lo :: 32 word) = unat lo"
    using h l by (simp_all add: unsigned_ucast_eq take_bit_nat_eq_self_iff)
  have "unat (push_bit 8 (ucast hi :: 32 word) + ucast lo) = (256 * unat hi + unat lo) mod 2 ^ 32"
    by (simp add: unat_word_ariths push_bit_eq_mult uh ul mod_simps mult.commute)
  also have "\<dots> = 256 * unat hi + unat lo"
    using h l by simp
  finally show ?thesis by (simp add: word16_or_add)
qed

lemma nibble_val:
  "unat (drop_bit (j * 4) (push_bit 8 (ucast (hi :: 8 word) :: 32 word) OR ucast (lo :: 8 word))
         AND 0xf)
   = (256 * unat hi + unat lo) div 16 ^ j mod 16"
proof -
  let ?W = "push_bit 8 (ucast hi :: 32 word) OR ucast lo"
  have m: "(0xf :: 32 word) = mask 4" by (simp add: mask_eq_exp_minus_1)
  have "unat (drop_bit (j * 4) ?W AND 0xf) = unat (take_bit 4 (drop_bit (j * 4) ?W))"
    by (simp only: m take_bit_eq_mask)
  also have "\<dots> = unat ?W div 2 ^ (j * 4) mod 2 ^ 4"
    by (simp only: unsigned_take_bit_eq unat_drop_bit_eq) (simp add: take_bit_eq_mod drop_bit_eq_div)
  also have "(2::nat) ^ (j * 4) = 16 ^ j"
    using power_mult [of "2::nat" 4 j] by (simp add: mult.commute)
  finally show ?thesis by (simp add: word16_unat)
qed

lemma nibbles_j_word:
  "nibbles_j ip i 0 b =
     b @ [hexDigit ! ((256 * unat (ip ! (i - 2)) + unat (ip ! (i - 1))) mod 16), CHR ''.'',
          hexDigit ! ((256 * unat (ip ! (i - 2)) + unat (ip ! (i - 1))) div 16 mod 16), CHR ''.'',
          hexDigit ! ((256 * unat (ip ! (i - 2)) + unat (ip ! (i - 1))) div 256 mod 16), CHR ''.'',
          hexDigit ! ((256 * unat (ip ! (i - 2)) + unat (ip ! (i - 1))) div 4096 mod 16), CHR ''.'']"
  using nibble_val [of 0 "ip ! (i - 2)" "ip ! (i - 1)"] nibble_val [of 1 "ip ! (i - 2)" "ip ! (i - 1)"]
    nibble_val [of 2 "ip ! (i - 2)" "ip ! (i - 1)"] nibble_val [of 3 "ip ! (i - 2)" "ip ! (i - 1)"]
  by (simp add: nibbles_j.simps [of ip i] Let_def)

lemma words_i_16:
  "take 63 (words_i ip 16 []) =
     dotted (concat (map (\<lambda>k. nibbles_lsf (word16 ip k)) [7, 6, 5, 4, 3, 2, 1, 0]))"
  by (simp add: words_i.simps [of ip] nibbles_j_word nibbles_lsf_def word16_def)

section \<open>Single-item lookups of the session resolver\<close>

lemma asn_line_no_match: "asn_line E ''Error: no match'' = Inl (ErrorString ''no match'')"
  by (simp add: asn_line_def HasPrefix_def trim_no_match)

lemma whois_LookupIP_returns: "\<exists>r. whois_LookupIP E ip c = Return r"
  by (simp add: whois_LookupIP_def split: prod.split)

lemma whois_LookupIP_zero_records:
  "fst (whois_LookupIPs E [ip] c) = ([], err) \<Longrightarrow>
   whois_LookupIP E ip c = Return ((None, err), snd (whois_LookupIPs E [ip] c))"
  by (cases "whois_LookupIPs E [ip] c") (auto simp: whois_LookupIP_def)

lemma whois_LookupASN_zero_records:
  "fst (whois_LookupASNs E [asn] c) = ([], err) \<Longrightarrow>
   whois_LookupASN E asn c = Panic ''index out of range [0] with length 0''"
  by (cases "whois_LookupASNs E [asn] c") (auto simp: whois_LookupASN_def)

text \<open>
  C1. A single-item lookup whose batch returns zero records must return the batch's
  error without indexing the empty result. \<open>LookupIP\<close> does (lemma
  \<open>whois_LookupIP_zero_records\<close>); \<open>LookupASN\<close> indexes \<open>resp[0]\<close> at once and panics,
  both when the line source is already closed and when the first line is
  \<open>Error: no match\<close>, whatever the writer did.
\<close>

theorem LookupASN_zero_records_panics:
  "whois_LookupASN E asn (c\<lparr>incoming := []\<rparr>) = Panic ''index out of range [0] with length 0''
   \<and> whois_LookupASN E asn (c\<lparr>incoming := ''Error: no match'' # rest\<rparr>)
       = Panic ''index out of range [0] with length 0''"
proof -
  have "whois_LookupASN E asn c' = Panic ''index out of range [0] with length 0''"
    if "incoming c' = [] \<or> incoming c' = ''Error: no match'' # rest" for c'
  proof (cases "write_queries [ASN_String E asn] c'")
    case (Pair r d)
    have inc: "incoming d = incoming c'"
      using write_queries_incoming [of "[ASN_String E asn]" c'] Pair by simp
    show ?thesis
    proof (cases r)
      case (Some e)
      with Pair show ?thesis by (simp add: whois_LookupASN_def whois_LookupASNs_def)
    next
      case None
      with Pair inc that show ?thesis
        by (auto simp: whois_LookupASN_def whois_LookupASNs_def asn_line_no_match)
    qed
  qed
  then show ?thesis by simp
qed

section \<open>Batches of the directory resolver\<close>

lemma LookupASNs_loop_prefix:
  "\<exists>rs. fst (fst (LookupASNs_loop E asns ret w)) = ret @ rs"
proof (induction asns arbitrary: ret w)
  case Nil
  show ?case by simp
next
  case (Cons a asns)
  obtain r w' where p: "dns_LookupASN E a w = (r, w')" by (cases "dns_LookupASN E a w")
  show ?case
  proof (cases r)
    case (Inl e)
    with p show ?thesis by simp
  next
    case (Inr resp)
    from Cons.IH [of "ret @ [resp]" w'] obtain rs where
      "fst (fst (LookupASNs_loop E asns (ret @ [resp]) w')) = ret @ resp # rs"
      by auto
    with p Inr show ?thesis by simp
  qed
qed

lemma LookupASNs_loop_length:
  "snd (fst (LookupASNs_loop E asns ret w)) = None \<Longrightarrow>
   length (fst (fst (LookupASNs_loop E asns ret w))) = length ret + length asns"
proof (induction asns arbitrary: ret w)
  case Nil
  show ?case by simp
next
  case (Cons a asns)
  obtain r w' where p: "dns_LookupASN E a w = (r, w')" by (cases "dns_LookupASN E a w")
  show ?case
  proof (cases r)
    case (Inl e)
    with p Cons.prems show ?thesis by simp
  next
    case (Inr resp)
    with p Cons.prems have "snd (fst (LookupASNs_loop E asns (ret @ [resp]) w')) = None"
      by simp
    from Cons.IH [OF this] p Inr show ?thesis by simp
  qed
qed

lemma dns_LookupASNs_zero_prefix:
  "take (length asns) (fst (fst (dns_LookupASNs E asns w)))
   = replicate (length asns) (zeroResponse E)"
proof -
  obtain rs where "fst (fst (dns_LookupASNs E asns w)) = replicate (length asns) (zeroResponse E) @ rs"
    using LookupASNs_loop_prefix [of E asns "replicate (length asns) (zeroResponse E)" w]
    by (auto simp: dns_LookupASNs_def)
  then show ?thesis by simp
qed

lemma dns_LookupASNs_success_length:
  "snd (fst (dns_LookupASNs E asns w)) = None \<Longrightarrow>
   length (fst (fst (dns_LookupASNs E asns w))) = 2 * length asns"
  using LookupASNs_loop_length [of E asns "replicate (length asns) (zeroResponse E)" w]
  by (simp add: dns_LookupASNs_def)

section \<open>The model on the sample environment\<close>

lemma sample_sel [simp]:
  "NewCountryFromCode (sample z) = sampleCountry" "NewName (sample z) = (\<lambda>s. s)"
  "zeroCountry (sample z) = ('''', '''')" "zeroName (sample z) = ''''"
  "ASN_String (sample z) = (\<lambda>n. ''AS'' @ fmt_d (nat n))"
  "ParseCIDR (sample z) = sampleCIDR" "LookupTXT (sample z) = sampleTXT z"
  "growslice (sample z) = (\<lambda>n. n + 1)" "IP_String (sample z) = (\<lambda>ip. ''192.0.2.1'')"
  "ParseIP (sample z) = (\<lambda>s. if s = ''192.0.2.1'' then addr1 else [])"
  by (simp_all add: sample_def)

lemma fmt_d_23456: "fmt_d 23456 = ''23456''"
  by (simp add: fmt_d.simps hexDigit_def)

lemma trimmed_asn_txt1: "trimmed asn_txt1 = [''23456'', ''US'', ''arin'', ''2000-01-01'', ''EXAMPLE'']"
  by code_simp

lemma trimmed_origin_txt1:
  "trimmed origin_txt1 = [''23456'', ''192.0.2.0/24'', ''US'', ''arin'', ''2000-01-01'']"
  by code_simp

lemma trimmed_origin_txt2:
  "trimmed origin_txt2 = [''23456'', ''192.0.2.0/24'', ''US'', ''arin'', '''']"
  by code_simp

lemma count_sample_txts:
  "length (Split asn_txt1 CHR ''|'') = 5" "length (Split origin_txt1 CHR ''|'') = 5"
  "length (Split origin_txt2 CHR ''|'') = 5"
  by code_simp+

lemma Atoi_23456: "Atoi ''23456'' = Inr 23456"
  by code_simp

lemma time_Parse_2000: "time_Parse ''2000-01-01'' = Inr (Date 2000 1 1)"
  by code_simp

lemma asn_txt_sample:
  "asn_txt (sample z) a asn_txt1 =
     Inr \<lparr>IP = [], ASN = a, Name = ''EXAMPLE'', Country = (''US'', ''United States''),
          Registry = ''arin'', Range' = None, Allocated = Date 2000 1 1\<rparr>"
  by (simp add: asn_txt_def count_sample_txts trimmed_asn_txt1 sampleCountry_def time_Parse_2000)

lemma dns_LookupASN_sample:
  "dns_LookupASN (sample zone1) 23456 w =
     (Inr \<lparr>IP = [], ASN = 23456, Name = ''EXAMPLE'', Country = (''US'', ''United States''),
           Registry = ''arin'', Range' = None, Allocated = Date 2000 1 1\<rparr>,
      w @ [''AS23456.asn.cymru.com''])"
  by (simp add: dns_LookupASN_def sampleTXT_def zone1_def fmt_d_23456 asn_txt_sample)

lemma ip_txt_sample1:
  "ip_txt (sample z) ip origin_txt1 =
     Inr \<lparr>IP = ip, ASN = 23456, Name = '''', Country = (''US'', ''United States''),
          Registry = ''arin'',
          Range' = Some \<lparr>net_IP = [192, 0, 2, 0], Mask = [255, 255, 255, 0]\<rparr>,
          Allocated = Date 2000 1 1\<rparr>"
  by (simp add: ip_txt_def count_sample_txts trimmed_origin_txt1 sampleCountry_def
      sampleCIDR_def time_Parse_2000 Atoi_23456)

lemma ip_txt_sample2:
  "ip_txt (sample z) ip origin_txt2 =
     Inr \<lparr>IP = ip, ASN = 23456, Name = '''', Country = (''US'', ''United States''),
          Registry = ''arin'',
          Range' = Some \<lparr>net_IP = [192, 0, 2, 0], Mask = [255, 255, 255, 0]\<rparr>,
          Allocated = zeroTime\<rparr>"
  by (simp add: ip_txt_def count_sample_txts trimmed_origin_txt2 sampleCountry_def
      sampleCIDR_def Atoi_23456)

lemma getLookupName_addr1: "getLookupName addr1 = Return (''1.2.0.192.origin.asn.cymru.com'', None)"
  by (simp add: getLookupName_def addr1_def To4_def fmt_d.simps hexDigit_def)

lemma dns_LookupIP_sample:
  "dns_LookupIP (sample zone1) addr1 w =
     Return (Inr \<lparr>IP = addr1, ASN = 23456, Name = ''EXAMPLE'',
                  Country = (''US'', ''United States''), Registry = ''arin'',
                  Range' = Some \<lparr>net_IP = [192, 0, 2, 0], Mask = [255, 255, 255, 0]\<rparr>,
                  Allocated = Date 2000 1 1\<rparr>,
             w @ [''1.2.0.192.origin.asn.cymru.com'', ''AS23456.asn.cymru.com''])"
  by (simp add: dns_LookupIP_def getLookupName_addr1 sampleTXT_def zone1_def ip_txt_sample1
      dns_LookupASN_sample [unfolded zone1_def])

text \<open>
  C2. A batch of N inputs whose lookups all succeed must return exactly N records, the
  i-th for the i-th input. Both batch operations start from a slice of N zero records
  and append: a batch of one input returns two records, the zero record first. (Every
  batch returns its N zero records first, lemma \<open>dns_LookupASNs_zero_prefix\<close>, and 2N
  records when it succeeds, lemma \<open>dns_LookupASNs_success_length\<close>.)
\<close>

theorem dns_batch_of_one_returns_two:
  "fst (dns_LookupASNs (sample zone1) [23456] []) =
     ([zeroResponse (sample zone1),
       \<lparr>IP = [], ASN = 23456, Name = ''EXAMPLE'', Country = (''US'', ''United States''),
        Registry = ''arin'', Range' = None, Allocated = Date 2000 1 1\<rparr>], None)
   \<and> dns_LookupIPs (sample zone1) [addr1] [] =
     Return (([zeroResponse (sample zone1),
               \<lparr>IP = addr1, ASN = 23456, Name = ''EXAMPLE'',
                Country = (''US'', ''United States''), Registry = ''arin'',
                Range' = Some \<lparr>net_IP = [192, 0, 2, 0], Mask = [255, 255, 255, 0]\<rparr>,
                Allocated = Date 2000 1 1\<rparr>], None),
             [''1.2.0.192.origin.asn.cymru.com'', ''AS23456.asn.cymru.com''])"
  by (simp add: dns_LookupASNs_def dns_LookupIPs_def dns_LookupASN_sample dns_LookupIP_sample)

section \<open>Error lines of the session resolver\<close>

lemma error_line_aborts:
  "HasPrefix raw ''Error: '' \<Longrightarrow>
   read_loop (ip_line E) g (raw # rest) resp cp
     = ((resp, Some (ErrorString (TrimSpace (TrimLeft raw ''Error: '')))), rest)
   \<and> read_loop (asn_line E) g (raw # rest) resp cp
     = ((resp, Some (ErrorString (TrimSpace (TrimLeft raw ''Error: '')))), rest)"
  by (simp add: ip_line_def asn_line_def)

lemma error_no_match_aborts:
  "read_loop (ip_line E) g (''Error: no match'' # rest) resp cp
     = ((resp, Some (ErrorString ''no match'')), rest)
   \<and> read_loop (asn_line E) g (''Error: no match'' # rest) resp cp
     = ((resp, Some (ErrorString ''no match'')), rest)"
  using error_line_aborts [of "''Error: no match''" E g rest resp cp]
  by (simp add: HasPrefix_def trim_no_match)

text \<open>
  C3. A line that begins with \<open>Error: \<close> must abort the batch with the records
  parsed so far and an error whose message is the rest of the line after the marker,
  trimmed. The batch does abort with the records so far (lemma \<open>error_line_aborts\<close>),
  and \<open>Error: no match\<close> gives \<open>no match\<close> (lemma \<open>error_no_match_aborts\<close>). But the
  marker is removed with \<open>bytes.TrimLeft\<close>, which takes its second argument as a set
  of bytes: the message loses every leading \<open>E\<close>, \<open>r\<close>, \<open>o\<close>, colon and space of its own.
  \<open>Error: route not found\<close> gives the message \<open>ute not found\<close>.
\<close>

theorem error_line_message_overtrimmed:
  "read_loop (ip_line E) g (''Error: route not found'' # rest) resp cp
     = ((resp, Some (ErrorString ''ute not found'')), rest)
   \<and> read_loop (asn_line E) g (''Error: route not found'' # rest) resp cp
     = ((resp, Some (ErrorString ''ute not found'')), rest)"
  using error_line_aborts [of "''Error: route not found''" E g rest resp cp]
  by (simp add: HasPrefix_def trim_route_not_found)

section \<open>The reverse name of an IPv4 address\<close>

lemma getLookupName_mapped:
  "getLookupName [0, 0, 0, 0, 0, 0, 0, 0, 0, 0, 0xff, 0xff, b1, b2, b3, b4] =
     Return (fmt_d (unat b4) @ ''.'' @ fmt_d (unat b3) @ ''.'' @ fmt_d (unat b2) @ ''.''
             @ fmt_d (unat b1) @ ''.origin.asn.cymru.com'', None)"
  by (simp add: getLookupName_def To4_def)

text \<open>
  C4. A 4-byte address \<open>[b1, b2, b3, b4]\<close> must encode to \<open>b4.b3.b2.b1.\<close> and the IPv4
  suffix. The encoder recognises the address with \<open>To4\<close> and then reads \<open>ip[15]\<close> to
  \<open>ip[12]\<close> of the slice it was given, not of the 4-byte form: on a 4-byte slice it
  panics. Only the 16-byte form of an IPv4 address is encoded (lemma
  \<open>getLookupName_mapped\<close>; \<open>192.0.2.1\<close> in lemma \<open>getLookupName_addr1\<close>).
\<close>

theorem getLookupName_4_bytes_panics:
  "getLookupName [b1, b2, b3, b4] = Panic ''index out of range [15]''"
  by (simp add: getLookupName_def To4_def)

section \<open>Addresses of other lengths\<close>

lemma getLookupName_bad_length:
  "length ip \<noteq> 4 \<Longrightarrow> length ip \<noteq> 16 \<Longrightarrow>
   getLookupName ip =
     Return ('''', Some (Errorf ''Could not parse IP. Invalid length (%d)''
                          [ArgD (int (length ip))]))"
  by (simp add: getLookupName_def To4_def)

lemma dns_LookupIP_bad_length:
  "length ip \<noteq> 4 \<Longrightarrow> length ip \<noteq> 16 \<Longrightarrow> LookupTXT E [] w = (Inl e, w') \<Longrightarrow>
   dns_LookupIP E ip w = Return (Inl e, w')"
  by (simp add: dns_LookupIP_def getLookupName_bad_length)

text \<open>
  C6. An address whose length is neither 4 nor 16 must be rejected by \<open>LookupIP\<close> with
  a length error, before any DNS query. The encoder returns that error (lemma
  \<open>getLookupName_bad_length\<close>), but \<open>LookupIP\<close> overwrites it with the result of
  \<open>net.LookupTXT\<close> on the empty name it got: the resolver is asked for the name
  \<open>""\<close> and its answer decides (lemma \<open>dns_LookupIP_bad_length\<close>). On the sample
  zone, a 3-byte address returns the resolver's error, and the resolver was asked.
\<close>

theorem LookupIP_bad_length_queries_dns:
  "dns_LookupIP (sample zone1) [1, 2, 3] [] = Return (Inl (Foreign ''no such host''), [''''])"
  using dns_LookupIP_bad_length [of "[1, 2, 3]" "sample zone1" "[]" "Foreign ''no such host''" "['''']"]
  by (simp add: sampleTXT_def zone1_def)

section \<open>The reverse name of a 16-byte address\<close>

text \<open>
  C9 (amended). For every 16-byte address that is not an IPv4 address in its 16-byte
  form (\<open>To4\<close> returns nil), the encoder returns the eight 16-bit words from the last
  to the first, each as four hex nibbles from the least significant one, joined by
  dots with no dot before or after, then the v6 suffix.
\<close>

theorem reverse_name6:
  "length ip = 16 \<Longrightarrow> To4 ip = [] \<Longrightarrow> getLookupName ip = Return (spec_reverse_name6 ip, None)"
  by (simp add: getLookupName_def spec_reverse_name6_def words_i_16)

text \<open>The all-zero address: 32 nibbles \<open>0\<close>.\<close>

theorem reverse_name6_zero:
  "length [0, 0, 0, 0, 0, 0, 0, 0, 0, 0, 0, 0, 0, 0, 0, 0 :: byte] = 16
   \<and> To4 [0, 0, 0, 0, 0, 0, 0, 0, 0, 0, 0, 0, 0, 0, 0, 0] = []
   \<and> getLookupName [0, 0, 0, 0, 0, 0, 0, 0, 0, 0, 0, 0, 0, 0, 0, 0] =
       Return (''0.0.0.0.0.0.0.0.0.0.0.0.0.0.0.0.0.0.0.0.0.0.0.0.0.0.0.0.0.0.0.0.origin6.asn.cymru.com'',
               None)"
  using reverse_name6 [of "[0, 0, 0, 0, 0, 0, 0, 0, 0, 0, 0, 0, 0, 0, 0, 0]"]
  by (simp add: To4_def spec_reverse_name6_def nibbles_lsf_def word16_def hexDigit_def)

text \<open>
  The claim as it stands fails on the 16-byte form of \<open>192.0.2.1\<close>, which is encoded
  as the IPv4 address it is.
\<close>

theorem reverse_name6_mapped_address:
  "length addr1 = 16
   \<and> getLookupName addr1 = Return (''1.2.0.192.origin.asn.cymru.com'', None)
   \<and> spec_reverse_name6 addr1 =
       ''1.0.2.0.0.0.0.c.f.f.f.f.0.0.0.0.0.0.0.0.0.0.0.0.0.0.0.0.0.0.0.0.origin6.asn.cymru.com''"
  by (simp add: getLookupName_addr1)
     (simp add: addr1_def spec_reverse_name6_def nibbles_lsf_def word16_def hexDigit_def)

section \<open>The read loop of the session resolver\<close>

lemma ip_line_valid_iff: "(\<not> isl (ip_line E raw)) = ip_line_valid E raw"
  by (auto simp: ip_line_def ip_line_valid_def netcatIPTokensLength_def ErrUnexpectedTokens_def
      Let_def split: sum.split)

lemma asn_line_valid_iff: "(\<not> isl (asn_line E raw)) = asn_line_valid raw"
  by (auto simp: asn_line_def asn_line_valid_def netcatASNTokensLength_def ErrUnexpectedTokens_def
      Let_def split: sum.split)

lemma read_loop_record:
  "body raw = Inr re \<Longrightarrow> length resp < cp \<Longrightarrow>
   read_loop body g (raw # rest) resp cp =
     (if length resp + 1 = cp then ((resp @ [re], None), rest)
      else read_loop body g rest (resp @ [re]) cp)"
  by simp

lemma read_loop_eof:
  "list_all (\<lambda>l. \<not> isl (body l)) lines \<Longrightarrow> length resp + length lines < cp \<Longrightarrow>
   read_loop body g lines resp cp = ((resp @ map (\<lambda>l. projr (body l)) lines, None), [])"
proof (induction lines arbitrary: resp)
  case Nil
  show ?case by simp
next
  case (Cons raw rest)
  from Cons.prems(1) obtain re where re: "body raw = Inr re"
    by (cases "body raw") simp_all
  from Cons.prems have rest: "list_all (\<lambda>l. \<not> isl (body l)) rest"
    and len: "length (resp @ [re]) + length rest < cp"
    by simp_all
  from Cons.prems(2) re
  have "read_loop body g (raw # rest) resp cp = read_loop body g rest (resp @ [re]) cp"
    by simp
  with Cons.IH [OF rest len] re show ?case by simp
qed

lemma whois_LookupIPs_read:
  "fst (write_queries (map (IP_String E) ips) c) = None \<Longrightarrow>
   fst (whois_LookupIPs E ips c) = fst (read_loop (ip_line E) (growslice E) (incoming c) [] (length ips))"
proof -
  assume w: "fst (write_queries (map (IP_String E) ips) c) = None"
  obtain c' where c': "write_queries (map (IP_String E) ips) c = (None, c')"
    using w by (cases "write_queries (map (IP_String E) ips) c") simp
  have "incoming c' = incoming c"
    using write_queries_incoming [of "map (IP_String E) ips" c] c' by simp
  with c' show ?thesis
    by (simp add: whois_LookupIPs_def split: prod.split)
qed

lemma whois_LookupASNs_read:
  "fst (write_queries (map (ASN_String E) asns) c) = None \<Longrightarrow>
   fst (whois_LookupASNs E asns c) = fst (read_loop (asn_line E) (growslice E) (incoming c) [] (length asns))"
proof -
  assume w: "fst (write_queries (map (ASN_String E) asns) c) = None"
  obtain c' where c': "write_queries (map (ASN_String E) asns) c = (None, c')"
    using w by (cases "write_queries (map (ASN_String E) asns) c") simp
  have "incoming c' = incoming c"
    using write_queries_incoming [of "map (ASN_String E) asns" c] c' by simp
  with c' show ?thesis
    by (simp add: whois_LookupASNs_def split: prod.split)
qed

text \<open>
  C5. When the line source ends after K structurally valid lines of a batch of N > K
  inputs whose queries were written, the batch returns exactly the K records of those
  lines and a nil error, for addresses and for ASNs.
\<close>

theorem eof_returns_records_so_far:
  "(fst (write_queries (map (IP_String E) ips) c) = None
      \<and> list_all (ip_line_valid E) (incoming c) \<and> length (incoming c) < length ips
    \<longrightarrow> fst (whois_LookupIPs E ips c) = (map (\<lambda>l. projr (ip_line E l)) (incoming c), None)
        \<and> length (fst (fst (whois_LookupIPs E ips c))) = length (incoming c))
   \<and> (fst (write_queries (map (ASN_String E) asns) d) = None
      \<and> list_all asn_line_valid (incoming d) \<and> length (incoming d) < length asns
    \<longrightarrow> fst (whois_LookupASNs E asns d) = (map (\<lambda>l. projr (asn_line E l)) (incoming d), None)
        \<and> length (fst (fst (whois_LookupASNs E asns d))) = length (incoming d))"
proof (intro conjI impI)
  assume a: "fst (write_queries (map (IP_String E) ips) c) = None
      \<and> list_all (ip_line_valid E) (incoming c) \<and> length (incoming c) < length ips"
  then have "list_all (\<lambda>l. \<not> isl (ip_line E l)) (incoming c)"
    by (simp add: ip_line_valid_iff)
  with a have "read_loop (ip_line E) (growslice E) (incoming c) [] (length ips)
      = (([] @ map (\<lambda>l. projr (ip_line E l)) (incoming c), None), [])"
    by (intro read_loop_eof) simp_all
  with a show "fst (whois_LookupIPs E ips c) = (map (\<lambda>l. projr (ip_line E l)) (incoming c), None)"
    by (simp add: whois_LookupIPs_read)
  then show "length (fst (fst (whois_LookupIPs E ips c))) = length (incoming c)"
    by simp
next
  assume a: "fst (write_queries (map (ASN_String E) asns) d) = None
      \<and> list_all asn_line_valid (incoming d) \<and> length (incoming d) < length asns"
  then have "list_all (\<lambda>l. \<not> isl (asn_line E l)) (incoming d)"
    by (simp add: asn_line_valid_iff)
  with a have "read_loop (asn_line E) (growslice E) (incoming d) [] (length asns)
      = (([] @ map (\<lambda>l. projr (asn_line E l)) (incoming d), None), [])"
    by (intro read_loop_eof) simp_all
  with a show "fst (whois_LookupASNs E asns d) = (map (\<lambda>l. projr (asn_line E l)) (incoming d), None)"
    by (simp add: whois_LookupASNs_read)
  then show "length (fst (fst (whois_LookupASNs E asns d))) = length (incoming d)"
    by simp
qed
text \<open>The sample lines of the session transport.\<close>

lemma count_sample_lines:
  "length (Split ip_line1 CHR ''|'') = 7" "length (Split ip_line2 CHR ''|'') = 7"
  "length (Split asn_line1 CHR ''|'') = 5" "length (Split asn_line2 CHR ''|'') = 5"
  by code_simp+

lemma no_marker_sample_lines:
  "\<not> HasPrefix ip_line1 ''Error: ''" "\<not> HasPrefix ip_line2 ''Error: ''"
  "\<not> HasPrefix asn_line1 ''Error: ''" "\<not> HasPrefix asn_line2 ''Error: ''"
  by code_simp+

lemma trimmed_ip_line1:
  "trimmed ip_line1 =
     [''23456'', ''192.0.2.1'', ''192.0.2.0/24'', ''US'', ''arin'', ''2000-01-01'', ''EXAMPLE'']"
  by code_simp

lemma trimmed_ip_line2:
  "trimmed ip_line2 = [''23456'', ''192.0.2.1'', ''192.0.2.0/24'', ''ZZ'', ''arin'', '''', ''EXAMPLE'']"
  by code_simp

lemma trimmed_asn_line1:
  "trimmed asn_line1 = [''23456'', ''US'', ''arin'', ''2000-01-01'', ''EXAMPLE'']"
  by code_simp

lemma trimmed_asn_line2: "trimmed asn_line2 = [''23456'', ''ZZ'', ''arin'', '''', ''EXAMPLE'']"
  by code_simp

lemma time_Parse_empty: "time_Parse [] = Inl (TimeParseError [])"
  by (simp add: time_Parse_def)

lemma ip_line_sample1:
  "ip_line (sample z) ip_line1 =
     Inr \<lparr>IP = addr1, ASN = 23456, Name = ''EXAMPLE'', Country = (''US'', ''United States''),
          Registry = ''arin'',
          Range' = Some \<lparr>net_IP = [192, 0, 2, 0], Mask = [255, 255, 255, 0]\<rparr>,
          Allocated = Date 2000 1 1\<rparr>"
  by (simp add: ip_line_def netcatIPTokensLength_def count_sample_lines no_marker_sample_lines
      trimmed_ip_line1 Atoi_23456 sampleCIDR_def sampleCountry_def time_Parse_2000)

lemma ip_line_sample2:
  "ip_line (sample z) ip_line2 =
     Inr \<lparr>IP = addr1, ASN = 23456, Name = ''EXAMPLE'', Country = ('''', ''''),
          Registry = ''arin'',
          Range' = Some \<lparr>net_IP = [192, 0, 2, 0], Mask = [255, 255, 255, 0]\<rparr>,
          Allocated = zeroTime\<rparr>"
  by (simp add: ip_line_def netcatIPTokensLength_def count_sample_lines no_marker_sample_lines
      trimmed_ip_line2 Atoi_23456 sampleCIDR_def sampleCountry_def time_Parse_empty)

lemma asn_line_sample1:
  "asn_line (sample z) asn_line1 =
     Inr \<lparr>IP = [], ASN = 23456, Name = ''EXAMPLE'', Country = (''US'', ''United States''),
          Registry = ''arin'', Range' = None, Allocated = Date 2000 1 1\<rparr>"
  by (simp add: asn_line_def netcatASNTokensLength_def count_sample_lines no_marker_sample_lines
      trimmed_asn_line1 Atoi_23456 sampleCountry_def time_Parse_2000)

lemma asn_line_sample2:
  "asn_line (sample z) asn_line2 =
     Inr \<lparr>IP = [], ASN = 23456, Name = ''EXAMPLE'', Country = ('''', ''''),
          Registry = ''arin'', Range' = None, Allocated = zeroTime\<rparr>"
  by (simp add: asn_line_def netcatASNTokensLength_def count_sample_lines no_marker_sample_lines
      trimmed_asn_line2 Atoi_23456 sampleCountry_def time_Parse_empty)

lemma sample_lines_valid:
  "ip_line_valid (sample z) ip_line1" "ip_line_valid (sample z) ip_line2"
  "asn_line_valid asn_line1" "asn_line_valid asn_line2"
  by (simp_all add: ip_line_valid_def asn_line_valid_def count_sample_lines no_marker_sample_lines
      trimmed_ip_line1 trimmed_ip_line2 trimmed_asn_line1 trimmed_asn_line2 Atoi_23456
      sampleCIDR_def)

lemma write_queries_conn: "fst (write_queries qs (conn lines)) = None"
proof -
  have "fst (write_queries qs c) = None" if "flushes c = []" for c
    using that
  proof (induction qs arbitrary: c)
    case Nil
    show ?case by simp
  next
    case (Cons q qs)
    then show ?case by (simp add: w_Flush_def w_Write_def)
  qed
  then show ?thesis by (simp add: conn_def)
qed

text \<open>
  A batch of three addresses, and one of three ASNs, whose line source closes after two
  valid lines: two records and no error.
\<close>

theorem eof_after_two_of_three:
  "fst (write_queries (map (IP_String (sample zone1)) [addr1, addr1, addr1])
         (conn [ip_line1, ip_line2])) = None
   \<and> list_all (ip_line_valid (sample zone1)) (incoming (conn [ip_line1, ip_line2]))
   \<and> length (incoming (conn [ip_line1, ip_line2])) < length [addr1, addr1, addr1]
   \<and> fst (whois_LookupIPs (sample zone1) [addr1, addr1, addr1] (conn [ip_line1, ip_line2])) =
       ([\<lparr>IP = addr1, ASN = 23456, Name = ''EXAMPLE'', Country = (''US'', ''United States''),
          Registry = ''arin'',
          Range' = Some \<lparr>net_IP = [192, 0, 2, 0], Mask = [255, 255, 255, 0]\<rparr>,
          Allocated = Date 2000 1 1\<rparr>,
         \<lparr>IP = addr1, ASN = 23456, Name = ''EXAMPLE'', Country = ('''', ''''),
          Registry = ''arin'',
          Range' = Some \<lparr>net_IP = [192, 0, 2, 0], Mask = [255, 255, 255, 0]\<rparr>,
          Allocated = zeroTime\<rparr>], None)
   \<and> fst (write_queries (map (ASN_String (sample zone1)) [23456, 23456, 23456])
           (conn [asn_line1, asn_line2])) = None
   \<and> list_all asn_line_valid (incoming (conn [asn_line1, asn_line2]))
   \<and> length (incoming (conn [asn_line1, asn_line2])) < length [23456, 23456, 23456 :: int]
   \<and> fst (whois_LookupASNs (sample zone1) [23456, 23456, 23456] (conn [asn_line1, asn_line2])) =
       ([\<lparr>IP = [], ASN = 23456, Name = ''EXAMPLE'', Country = (''US'', ''United States''),
          Registry = ''arin'', Range' = None, Allocated = Date 2000 1 1\<rparr>,
         \<lparr>IP = [], ASN = 23456, Name = ''EXAMPLE'', Country = ('''', ''''),
          Registry = ''arin'', Range' = None, Allocated = zeroTime\<rparr>], None)"
proof -
  have inc: "incoming (conn ls) = ls" for ls
    by (simp add: conn_def)
  note T = eof_returns_records_so_far [of "sample zone1" "[addr1, addr1, addr1]"
      "conn [ip_line1, ip_line2]" "[23456, 23456, 23456]" "conn [asn_line1, asn_line2]"]
  have w1: "fst (write_queries (map (IP_String (sample zone1)) [addr1, addr1, addr1])
                  (conn [ip_line1, ip_line2])) = None"
    and w2: "fst (write_queries (map (ASN_String (sample zone1)) [23456, 23456, 23456])
                  (conn [asn_line1, asn_line2])) = None"
    by (rule write_queries_conn)+
  have v1: "list_all (ip_line_valid (sample zone1)) (incoming (conn [ip_line1, ip_line2]))"
    and v2: "list_all asn_line_valid (incoming (conn [asn_line1, asn_line2]))"
    by (simp_all add: inc sample_lines_valid)
  have l1: "length (incoming (conn [ip_line1, ip_line2])) < length [addr1, addr1, addr1]"
    and l2: "length (incoming (conn [asn_line1, asn_line2])) < length [23456, 23456, 23456 :: int]"
    by (simp_all add: inc)
  from T w1 v1 l1
  have "fst (whois_LookupIPs (sample zone1) [addr1, addr1, addr1] (conn [ip_line1, ip_line2]))
        = (map (\<lambda>l. projr (ip_line (sample zone1) l)) (incoming (conn [ip_line1, ip_line2])), None)"
    by blast
  then have r1:
    "fst (whois_LookupIPs (sample zone1) [addr1, addr1, addr1] (conn [ip_line1, ip_line2]))
     = ([projr (ip_line (sample zone1) ip_line1), projr (ip_line (sample zone1) ip_line2)], None)"
    by (simp add: inc)
  from T w2 v2 l2
  have "fst (whois_LookupASNs (sample zone1) [23456, 23456, 23456] (conn [asn_line1, asn_line2]))
        = (map (\<lambda>l. projr (asn_line (sample zone1) l)) (incoming (conn [asn_line1, asn_line2])), None)"
    by blast
  then have r2:
    "fst (whois_LookupASNs (sample zone1) [23456, 23456, 23456] (conn [asn_line1, asn_line2]))
     = ([projr (asn_line (sample zone1) asn_line1), projr (asn_line (sample zone1) asn_line2)], None)"
    by (simp add: inc)
  show ?thesis
    by (intro conjI w1 w2 v1 v2 l1 l2)
       (simp_all only: r1 r2 ip_line_sample1 ip_line_sample2 asn_line_sample1 asn_line_sample2
          sum.sel)
qed

section \<open>Country codes that do not resolve\<close>

text \<open>
  C10. In either mode of the session resolver, a line whose country code the country
  collaborator fails to resolve does not abort the batch: the record is appended with
  the country value the collaborator returned beside its error, no error is set, and
  the loop goes on with the next line unless the slice is now full.
\<close>

theorem country_failure_does_not_abort:
  "(ip_line_valid E raw \<and> NewCountryFromCode E (trimmed raw ! 3) = (d, Some e)
    \<longrightarrow> (\<exists>re. ip_line E raw = Inr re \<and> Country re = d
             \<and> read_loop (ip_line E) g (raw # rest) resp cp =
                 (let cp' = (if length resp < cp then cp else g cp)
                  in if length (resp @ [re]) = cp' then ((resp @ [re], None), rest)
                     else read_loop (ip_line E) g rest (resp @ [re]) cp')))
   \<and> (asn_line_valid raw \<and> NewCountryFromCode E (trimmed raw ! 1) = (d, Some e)
    \<longrightarrow> (\<exists>re. asn_line E raw = Inr re \<and> Country re = d
             \<and> read_loop (asn_line E) g (raw # rest) resp cp =
                 (let cp' = (if length resp < cp then cp else g cp)
                  in if length (resp @ [re]) = cp' then ((resp @ [re], None), rest)
                     else read_loop (asn_line E) g rest (resp @ [re]) cp')))"
proof (intro conjI impI)
  assume a: "ip_line_valid E raw \<and> NewCountryFromCode E (trimmed raw ! 3) = (d, Some e)"
  then have "\<not> isl (ip_line E raw)"
    by (simp add: ip_line_valid_iff)
  then obtain re where re: "ip_line E raw = Inr re"
    by (cases "ip_line E raw") simp_all
  from a re have "Country re = d"
    by (auto simp: ip_line_def ip_line_valid_def Let_def split: if_splits sum.splits)
  with re show "\<exists>re. ip_line E raw = Inr re \<and> Country re = d
             \<and> read_loop (ip_line E) g (raw # rest) resp cp =
                 (let cp' = (if length resp < cp then cp else g cp)
                  in if length (resp @ [re]) = cp' then ((resp @ [re], None), rest)
                     else read_loop (ip_line E) g rest (resp @ [re]) cp')"
    by simp
next
  assume a: "asn_line_valid raw \<and> NewCountryFromCode E (trimmed raw ! 1) = (d, Some e)"
  then have "\<not> isl (asn_line E raw)"
    by (simp add: asn_line_valid_iff)
  then obtain re where re: "asn_line E raw = Inr re"
    by (cases "asn_line E raw") simp_all
  from a re have "Country re = d"
    by (auto simp: asn_line_def asn_line_valid_def Let_def split: if_splits sum.splits)
  with re show "\<exists>re. asn_line E raw = Inr re \<and> Country re = d
             \<and> read_loop (asn_line E) g (raw # rest) resp cp =
                 (let cp' = (if length resp < cp then cp else g cp)
                  in if length (resp @ [re]) = cp' then ((resp @ [re], None), rest)
                     else read_loop (asn_line E) g rest (resp @ [re]) cp')"
    by simp
qed

text \<open>
  On the sample lines with the unknown country code \<open>ZZ\<close>, first of a batch of two: the
  record has the empty country and the loop reads the second line.
\<close>

theorem unknown_country_then_next_line:
  "ip_line_valid (sample zone1) ip_line2
   \<and> NewCountryFromCode (sample zone1) (trimmed ip_line2 ! 3)
       = (('''', ''''), Some (Foreign ''unknown country code''))
   \<and> Country (projr (ip_line (sample zone1) ip_line2)) = ('''', '''')
   \<and> read_loop (ip_line (sample zone1)) (\<lambda>n. n + 1) [ip_line2, ip_line1] [] 2 =
       (([projr (ip_line (sample zone1) ip_line2), projr (ip_line (sample zone1) ip_line1)],
         None), [])
   \<and> asn_line_valid asn_line2
   \<and> NewCountryFromCode (sample zone1) (trimmed asn_line2 ! 1)
       = (('''', ''''), Some (Foreign ''unknown country code''))
   \<and> Country (projr (asn_line (sample zone1) asn_line2)) = ('''', '''')
   \<and> read_loop (asn_line (sample zone1)) (\<lambda>n. n + 1) [asn_line2, asn_line1] [] 2 =
       (([projr (asn_line (sample zone1) asn_line2), projr (asn_line (sample zone1) asn_line1)],
         None), [])"
proof -
  note T = country_failure_does_not_abort [of "sample zone1" ip_line2 "('''', '''')"
      "Foreign ''unknown country code''" "\<lambda>n. n + 1" "[ip_line1]" "[]" 2]
  note U = country_failure_does_not_abort [of "sample zone1" asn_line2 "('''', '''')"
      "Foreign ''unknown country code''" "\<lambda>n. n + 1" "[asn_line1]" "[]" 2]
  have c1: "NewCountryFromCode (sample zone1) (trimmed ip_line2 ! 3)
            = (('''', ''''), Some (Foreign ''unknown country code''))"
    and c2: "NewCountryFromCode (sample zone1) (trimmed asn_line2 ! 1)
            = (('''', ''''), Some (Foreign ''unknown country code''))"
    by (simp_all add: trimmed_ip_line2 trimmed_asn_line2 sampleCountry_def)
  from T sample_lines_valid(2) c1 obtain re where
    re: "ip_line (sample zone1) ip_line2 = Inr re" "Country re = ('''', '''')"
      "read_loop (ip_line (sample zone1)) (\<lambda>n. n + 1) (ip_line2 # [ip_line1]) [] 2 =
         (let cp' = (if length ([] :: (string \<times> string, string) Response list) < 2 then 2 else 2 + 1)
          in if length ([] @ [re]) = cp' then (([] @ [re], None), [ip_line1])
             else read_loop (ip_line (sample zone1)) (\<lambda>n. n + 1) [ip_line1] ([] @ [re]) cp')"
    by blast
  from U sample_lines_valid(4) c2 obtain rf where
    rf: "asn_line (sample zone1) asn_line2 = Inr rf" "Country rf = ('''', '''')"
      "read_loop (asn_line (sample zone1)) (\<lambda>n. n + 1) (asn_line2 # [asn_line1]) [] 2 =
         (let cp' = (if length ([] :: (string \<times> string, string) Response list) < 2 then 2 else 2 + 1)
          in if length ([] @ [rf]) = cp' then (([] @ [rf], None), [asn_line1])
             else read_loop (asn_line (sample zone1)) (\<lambda>n. n + 1) [asn_line1] ([] @ [rf]) cp')"
    by blast
  from re have r1: "Country (projr (ip_line (sample zone1) ip_line2)) = ('''', '''')"
    and r2: "read_loop (ip_line (sample zone1)) (\<lambda>n. n + 1) [ip_line2, ip_line1] [] 2 =
       (([projr (ip_line (sample zone1) ip_line2), projr (ip_line (sample zone1) ip_line1)],
         None), [])"
    by (simp_all add: ip_line_sample1)
  from rf have r3: "Country (projr (asn_line (sample zone1) asn_line2)) = ('''', '''')"
    and r4: "read_loop (asn_line (sample zone1)) (\<lambda>n. n + 1) [asn_line2, asn_line1] [] 2 =
       (([projr (asn_line (sample zone1) asn_line2), projr (asn_line (sample zone1) asn_line1)],
         None), [])"
    by (simp_all add: asn_line_sample1)
  show ?thesis
    by (intro conjI sample_lines_valid c1 c2 r1 r2 r3 r4)
qed

section \<open>The two parsers of the ASN-mode text\<close>

lemma Split_not_Nil: "Split s sep \<noteq> []"
  by (induction s) (auto split: list.split)

lemma Split_first_E:
  "Split (CHR ''E'' # s) CHR ''|'' ! 0 = CHR ''E'' # (Split s CHR ''|'' ! 0)"
  using Split_not_Nil [of s "CHR ''|''"] by (cases "Split s CHR ''|''") simp_all

lemma trimLeftSpace_E: "trimLeftSpace (CHR ''E'' # f) = CHR ''E'' # f"
proof -
  have "spaceWidth (CHR ''E'' # f) = 0"
    by (simp add: spaceWidth_def unicode_spaces_def HasPrefix_def)
  then show ?thesis by (simp add: trimLeftSpace.simps [of "CHR ''E'' # f"])
qed

lemma trimRightSpace_take: "\<exists>k. trimRightSpace s = take k s"
proof (induction s rule: trimRightSpace.induct)
  case (1 s)
  show ?case
  proof (cases "lastSpaceWidth s = 0")
    case True
    then have "trimRightSpace s = take (length s) s"
      by (simp add: trimRightSpace.simps [of s])
    then show ?thesis by blast
  next
    case False
    from "1" [OF False] obtain k where
      "trimRightSpace (take (length s - lastSpaceWidth s) s) = take k (take (length s - lastSpaceWidth s) s)"
      by blast
    with False have "trimRightSpace s = take (min k (length s - lastSpaceWidth s)) s"
      by (simp add: trimRightSpace.simps [of s])
    then show ?thesis by blast
  qed
qed

lemma Atoi_take_E: "isl (Atoi (take k (CHR ''E'' # f)))"
  by (cases k) (simp_all add: Atoi_def HasPrefix_def isDigit_def)

lemma marker_line_asn_fails: "HasPrefix raw ''Error: '' \<Longrightarrow> isl (Atoi (trimmed raw ! 0))"
proof -
  assume "HasPrefix raw ''Error: ''"
  then obtain s where tE: "raw = CHR ''E'' # s"
    by (cases raw) (auto simp: HasPrefix_def)
  have "trimmed raw ! 0 = TrimSpace (Split raw CHR ''|'' ! 0)"
    using Split_not_Nil [of raw "CHR ''|''"] by (simp add: trimmed_def)
  also have "\<dots> = trimRightSpace (CHR ''E'' # (Split s CHR ''|'' ! 0))"
    by (simp only: tE Split_first_E TrimSpace_def trimLeftSpace_E)
  finally obtain k where "trimmed raw ! 0 = take k (CHR ''E'' # (Split s CHR ''|'' ! 0))"
    using trimRightSpace_take [of "CHR ''E'' # (Split s CHR ''|'' ! 0)"] by auto
  then show ?thesis by (simp only: Atoi_take_E)
qed

lemma count_more_txts:
  "length (Split asn_txt_bad_date CHR ''|'') = 5" "length (Split asn_txt_bad_asn CHR ''|'') = 5"
  "length (Split asn_txt_no_date CHR ''|'') = 5" "length (Split asn_txt_short CHR ''|'') = 4"
  "length (Split origin_txt_bad_date CHR ''|'') = 5"
  "length (Split ip_line_bad_date CHR ''|'') = 7"
  by code_simp+

lemma no_marker_more_txts:
  "\<not> HasPrefix asn_txt_bad_date ''Error: ''" "\<not> HasPrefix asn_txt_bad_asn ''Error: ''"
  "\<not> HasPrefix asn_txt_no_date ''Error: ''" "\<not> HasPrefix asn_txt_short ''Error: ''"
  "\<not> HasPrefix ip_line_bad_date ''Error: ''" "\<not> HasPrefix asn_txt1 ''Error: ''"
  by code_simp+

lemma trimmed_asn_txt_bad_date:
  "trimmed asn_txt_bad_date = [''23456'', ''US'', ''arin'', ''2000-13-45'', ''EXAMPLE'']"
  by code_simp

lemma trimmed_asn_txt_bad_asn:
  "trimmed asn_txt_bad_asn = [''AS23456'', ''US'', ''arin'', ''2000-01-01'', ''EXAMPLE'']"
  by code_simp

lemma trimmed_asn_txt_no_date:
  "trimmed asn_txt_no_date = [''23456'', ''US'', ''arin'', '''', ''EXAMPLE'']"
  by code_simp

lemma trimmed_origin_txt_bad_date:
  "trimmed origin_txt_bad_date = [''23456'', ''192.0.2.0/24'', ''US'', ''arin'', ''2000-13-45'']"
  by code_simp

lemma trimmed_ip_line_bad_date:
  "trimmed ip_line_bad_date =
     [''23456'', ''192.0.2.1'', ''192.0.2.0/24'', ''US'', ''arin'', ''2000-13-45'', ''EXAMPLE'']"
  by code_simp

lemma time_Parse_month_13: "time_Parse ''2000-13-45'' = Inl (TimeParseError ''2000-13-45'')"
  by code_simp

lemma Atoi_AS23456: "Atoi ''AS23456'' = Inl (NumError ''AS23456'' ErrSyntax)"
  by code_simp

text \<open>
  C7 (amended). On the same ASN-mode text, both resolvers yield an error when the text
  does not have exactly five fields, and both yield the same record when it has five
  fields, its asn field is the decimal form of the queried ASN, its country code
  resolves and its date field is empty or a valid date.
\<close>

theorem asn_parsers_agree_on_clean_text:
  "(length (Split t CHR ''|'') \<noteq> 5 \<longrightarrow> isl (asn_line E t) \<and> isl (asn_txt E asn t))
   \<and> (length (Split t CHR ''|'') = 5 \<and> Atoi (trimmed t ! 0) = Inr asn
        \<and> snd (NewCountryFromCode E (trimmed t ! 1)) = None
        \<and> (trimmed t ! 3 = [] \<or> \<not> isl (time_Parse (trimmed t ! 3)))
      \<longrightarrow> \<not> isl (asn_txt E asn t) \<and> asn_line E t = asn_txt E asn t)"
proof (intro conjI impI)
  assume "length (Split t CHR ''|'') \<noteq> 5"
  then show "isl (asn_line E t)" and "isl (asn_txt E asn t)"
    by (simp_all add: asn_line_def asn_txt_def netcatASNTokensLength_def)
next
  assume a: "length (Split t CHR ''|'') = 5 \<and> Atoi (trimmed t ! 0) = Inr asn
        \<and> snd (NewCountryFromCode E (trimmed t ! 1)) = None
        \<and> (trimmed t ! 3 = [] \<or> \<not> isl (time_Parse (trimmed t ! 3)))"
  obtain c where c: "NewCountryFromCode E (trimmed t ! 1) = (c, None)"
    using a by (cases "NewCountryFromCode E (trimmed t ! 1)") simp
  have m: "\<not> HasPrefix t ''Error: ''"
    using a marker_line_asn_fails [of t] by auto
  from a c show "\<not> isl (asn_txt E asn t)"
    by (auto simp: asn_txt_def Let_def split: sum.split)
  from a c m show "asn_line E t = asn_txt E asn t"
    by (auto simp: asn_line_def asn_txt_def netcatASNTokensLength_def Let_def time_Parse_empty
        split: sum.split)
qed

text \<open>
  The sample text of AS23456 gives the same record on both; without its name field it is
  an error on both.
\<close>

theorem asn_parsers_agree_on_sample:
  "length (Split asn_txt1 CHR ''|'') = 5 \<and> Atoi (trimmed asn_txt1 ! 0) = Inr 23456
   \<and> snd (NewCountryFromCode (sample zone1) (trimmed asn_txt1 ! 1)) = None
   \<and> \<not> isl (time_Parse (trimmed asn_txt1 ! 3))
   \<and> asn_line (sample zone1) asn_txt1 = asn_txt (sample zone1) 23456 asn_txt1
   \<and> \<not> isl (asn_txt (sample zone1) 23456 asn_txt1)
   \<and> length (Split asn_txt_short CHR ''|'') \<noteq> 5
   \<and> isl (asn_line (sample zone1) asn_txt_short)
   \<and> isl (asn_txt (sample zone1) 23456 asn_txt_short)"
proof -
  have h: "length (Split asn_txt1 CHR ''|'') = 5" "Atoi (trimmed asn_txt1 ! 0) = Inr 23456"
    "snd (NewCountryFromCode (sample zone1) (trimmed asn_txt1 ! 1)) = None"
    "\<not> isl (time_Parse (trimmed asn_txt1 ! 3))"
    by (simp_all add: count_sample_txts trimmed_asn_txt1 Atoi_23456 sampleCountry_def
        time_Parse_2000)
  have s: "length (Split asn_txt_short CHR ''|'') \<noteq> 5"
    by (simp add: count_more_txts)
  from asn_parsers_agree_on_clean_text [of asn_txt1 "sample zone1" 23456] h
  have r: "\<not> isl (asn_txt (sample zone1) 23456 asn_txt1)"
    "asn_line (sample zone1) asn_txt1 = asn_txt (sample zone1) 23456 asn_txt1"
    by blast+
  from asn_parsers_agree_on_clean_text [of asn_txt_short "sample zone1" 23456] s
  have q: "isl (asn_line (sample zone1) asn_txt_short)"
    "isl (asn_txt (sample zone1) 23456 asn_txt_short)"
    by blast+
  show ?thesis
    by (intro conjI h s r q)
qed

text \<open>
  The claim as it stands fails: a text with an unknown country code is a record for
  the session resolver and an error for the directory resolver, and a text whose asn
  field is not a number is an error for the session resolver and a record for the
  directory resolver.
\<close>

theorem asn_parsers_disagree:
  "asn_line (sample zone1) asn_line2 =
     Inr \<lparr>IP = [], ASN = 23456, Name = ''EXAMPLE'', Country = ('''', ''''),
          Registry = ''arin'', Range' = None, Allocated = zeroTime\<rparr>
   \<and> asn_txt (sample zone1) 23456 asn_line2 =
     Inl (Errorf ''Could not parse CountryCode (%s): %s''
            [ArgS ''ZZ'', ArgE (Foreign ''unknown country code'')])
   \<and> asn_line (sample zone1) asn_txt_bad_asn = Inl (NumError ''AS23456'' ErrSyntax)
   \<and> asn_txt (sample zone1) 23456 asn_txt_bad_asn =
     Inr \<lparr>IP = [], ASN = 23456, Name = ''EXAMPLE'', Country = (''US'', ''United States''),
          Registry = ''arin'', Range' = None, Allocated = Date 2000 1 1\<rparr>"
  by (simp add: asn_line_sample2)
     (simp add: asn_txt_def asn_line_def netcatASNTokensLength_def count_sample_lines
        count_more_txts no_marker_more_txts trimmed_asn_line2 trimmed_asn_txt_bad_asn
        sampleCountry_def Atoi_AS23456 time_Parse_2000)

section \<open>The allocation date\<close>

lemma count_strict_txts:
  "length (Split asn_txt_bad_country_date CHR ''|'') = 5"
  "length (Split origin_txt_bad_asn CHR ''|'') = 5"
  "length (Split origin_txt_bad_country CHR ''|'') = 5"
  "length (Split origin_txt_bad_range CHR ''|'') = 5"
  by code_simp+

lemma trimmed_asn_txt_bad_country_date:
  "trimmed asn_txt_bad_country_date = [''23456'', ''ZZ'', ''arin'', ''2000-13-45'', ''EXAMPLE'']"
  by code_simp

lemma trimmed_origin_txt_bad_asn:
  "trimmed origin_txt_bad_asn = [''AS23456'', ''192.0.2.0/24'', ''US'', ''arin'', ''2000-01-01'']"
  by code_simp

lemma trimmed_origin_txt_bad_country:
  "trimmed origin_txt_bad_country = [''23456'', ''192.0.2.0/24'', ''ZZ'', ''arin'', ''2000-01-01'']"
  by code_simp

lemma trimmed_origin_txt_bad_range:
  "trimmed origin_txt_bad_range = [''23456'', ''192.0.2.0'', ''US'', ''arin'', ''2000-01-01'']"
  by code_simp

text \<open>
  The directory resolver reads its fields in a fixed order and returns at the first one
  that fails, each with an error of its own: for an ASN the country code, then the
  date; for an address the asn, the country code, the range, then the date.
\<close>

lemma asn_txt_country_error:
  "length (Split t CHR ''|'') = 5 \<Longrightarrow> snd (NewCountryFromCode E (trimmed t ! 1)) = Some e \<Longrightarrow>
   asn_txt E asn t =
     Inl (Errorf ''Could not parse CountryCode (%s): %s'' [ArgS (trimmed t ! 1), ArgE e])"
  by (cases "NewCountryFromCode E (trimmed t ! 1)") (simp add: asn_txt_def Let_def)

lemma asn_txt_date_error:
  "length (Split t CHR ''|'') = 5 \<Longrightarrow> snd (NewCountryFromCode E (trimmed t ! 1)) = None \<Longrightarrow>
   trimmed t ! 3 \<noteq> [] \<Longrightarrow> time_Parse (trimmed t ! 3) = Inl e \<Longrightarrow>
   asn_txt E asn t =
     Inl (Errorf ''Could not parse date (%s): %s'' [ArgS (trimmed t ! 3), ArgE e])"
  by (cases "NewCountryFromCode E (trimmed t ! 1)") (simp add: asn_txt_def Let_def)

lemma ip_txt_asn_error:
  "length (Split t CHR ''|'') = 5 \<Longrightarrow> Atoi (trimmed t ! 0) = Inl e \<Longrightarrow>
   ip_txt E ip t = Inl (Errorf ''Could not parse ASN (%s): %s'' [ArgS (trimmed t ! 0), ArgE e])"
  by (simp add: ip_txt_def Let_def)

lemma ip_txt_country_error:
  "length (Split t CHR ''|'') = 5 \<Longrightarrow> \<not> isl (Atoi (trimmed t ! 0)) \<Longrightarrow>
   snd (NewCountryFromCode E (trimmed t ! 2)) = Some e \<Longrightarrow>
   ip_txt E ip t =
     Inl (Errorf ''Could not parse CountryCode (%s): %s'' [ArgS (trimmed t ! 2), ArgE e])"
  by (cases "NewCountryFromCode E (trimmed t ! 2)"; cases "Atoi (trimmed t ! 0)")
     (simp_all add: ip_txt_def Let_def)

lemma ip_txt_range_error:
  "length (Split t CHR ''|'') = 5 \<Longrightarrow> \<not> isl (Atoi (trimmed t ! 0)) \<Longrightarrow>
   snd (NewCountryFromCode E (trimmed t ! 2)) = None \<Longrightarrow> ParseCIDR E (trimmed t ! 1) = Inl e \<Longrightarrow>
   ip_txt E ip t = Inl (Errorf ''Could not parse Range (%s): %s'' [ArgS (trimmed t ! 1), ArgE e])"
  by (cases "NewCountryFromCode E (trimmed t ! 2)"; cases "Atoi (trimmed t ! 0)")
     (simp_all add: ip_txt_def Let_def)

lemma ip_txt_date_error:
  "length (Split t CHR ''|'') = 5 \<Longrightarrow> \<not> isl (Atoi (trimmed t ! 0)) \<Longrightarrow>
   snd (NewCountryFromCode E (trimmed t ! 2)) = None \<Longrightarrow> \<not> isl (ParseCIDR E (trimmed t ! 1)) \<Longrightarrow>
   trimmed t ! 4 \<noteq> [] \<Longrightarrow> time_Parse (trimmed t ! 4) = Inl e \<Longrightarrow>
   ip_txt E ip t = Inl (Errorf ''Could not parse date (%s): %s'' [ArgS (trimmed t ! 4), ArgE e])"
  by (cases "NewCountryFromCode E (trimmed t ! 2)"; cases "Atoi (trimmed t ! 0)";
      cases "ParseCIDR E (trimmed t ! 1)")
     (simp_all add: ip_txt_def Let_def)

text \<open>
  C8 (amended). The session resolver yields a record exactly for the structurally valid
  lines, so only the asn field and, in address mode, the range are strict there, and a
  date field that does not parse, empty or malformed, leaves the zero date in the
  record. The directory resolver yields a record with the zero date when the date
  field is empty and the other fields it reads are well formed. It never yields a
  record when the date field is not empty and does not parse: the error is the date
  parse error when the fields read before the date are well formed. Its other fields
  are strict, each with its own error, in the order asn (address lookup), country code,
  range (address lookup): an unresolved country code is the country error whatever
  the date field holds.
\<close>

theorem date_field_leniency:
  "(\<not> isl (ip_line E raw)) = ip_line_valid E raw
   \<and> (\<not> isl (asn_line E raw)) = asn_line_valid raw
   \<and> (ip_line_valid E raw \<and> isl (time_Parse (trimmed raw ! 5))
      \<longrightarrow> Allocated (projr (ip_line E raw)) = zeroTime)
   \<and> (asn_line_valid raw \<and> isl (time_Parse (trimmed raw ! 3))
      \<longrightarrow> Allocated (projr (asn_line E raw)) = zeroTime)
   \<and> (length (Split t CHR ''|'') = 5 \<and> trimmed t ! 3 = []
        \<and> snd (NewCountryFromCode E (trimmed t ! 1)) = None
      \<longrightarrow> \<not> isl (asn_txt E asn t) \<and> Allocated (projr (asn_txt E asn t)) = zeroTime)
   \<and> (length (Split t CHR ''|'') = 5 \<and> trimmed t ! 4 = []
        \<and> \<not> isl (Atoi (trimmed t ! 0)) \<and> snd (NewCountryFromCode E (trimmed t ! 2)) = None
        \<and> \<not> isl (ParseCIDR E (trimmed t ! 1))
      \<longrightarrow> \<not> isl (ip_txt E ip t) \<and> Allocated (projr (ip_txt E ip t)) = zeroTime)
   \<and> (length (Split t CHR ''|'') = 5 \<and> trimmed t ! 3 \<noteq> [] \<and> isl (time_Parse (trimmed t ! 3))
      \<longrightarrow> isl (asn_txt E asn t))
   \<and> (length (Split t CHR ''|'') = 5 \<and> trimmed t ! 4 \<noteq> [] \<and> isl (time_Parse (trimmed t ! 4))
      \<longrightarrow> isl (ip_txt E ip t))
   \<and> (length (Split t CHR ''|'') = 5 \<and> snd (NewCountryFromCode E (trimmed t ! 1)) = None
        \<and> trimmed t ! 3 \<noteq> [] \<and> time_Parse (trimmed t ! 3) = Inl e
      \<longrightarrow> asn_txt E asn t =
            Inl (Errorf ''Could not parse date (%s): %s'' [ArgS (trimmed t ! 3), ArgE e]))
   \<and> (length (Split t CHR ''|'') = 5 \<and> \<not> isl (Atoi (trimmed t ! 0))
        \<and> snd (NewCountryFromCode E (trimmed t ! 2)) = None
        \<and> \<not> isl (ParseCIDR E (trimmed t ! 1))
        \<and> trimmed t ! 4 \<noteq> [] \<and> time_Parse (trimmed t ! 4) = Inl e
      \<longrightarrow> ip_txt E ip t =
            Inl (Errorf ''Could not parse date (%s): %s'' [ArgS (trimmed t ! 4), ArgE e]))
   \<and> (length (Split t CHR ''|'') = 5 \<and> snd (NewCountryFromCode E (trimmed t ! 1)) = Some e
      \<longrightarrow> asn_txt E asn t =
            Inl (Errorf ''Could not parse CountryCode (%s): %s'' [ArgS (trimmed t ! 1), ArgE e]))
   \<and> (length (Split t CHR ''|'') = 5 \<and> Atoi (trimmed t ! 0) = Inl e
      \<longrightarrow> ip_txt E ip t =
            Inl (Errorf ''Could not parse ASN (%s): %s'' [ArgS (trimmed t ! 0), ArgE e]))
   \<and> (length (Split t CHR ''|'') = 5 \<and> \<not> isl (Atoi (trimmed t ! 0))
        \<and> snd (NewCountryFromCode E (trimmed t ! 2)) = Some e
      \<longrightarrow> ip_txt E ip t =
            Inl (Errorf ''Could not parse CountryCode (%s): %s'' [ArgS (trimmed t ! 2), ArgE e]))
   \<and> (length (Split t CHR ''|'') = 5 \<and> \<not> isl (Atoi (trimmed t ! 0))
        \<and> snd (NewCountryFromCode E (trimmed t ! 2)) = None
        \<and> ParseCIDR E (trimmed t ! 1) = Inl e
      \<longrightarrow> ip_txt E ip t =
            Inl (Errorf ''Could not parse Range (%s): %s'' [ArgS (trimmed t ! 1), ArgE e]))"
proof (intro conjI impI)
  show "(\<not> isl (ip_line E raw)) = ip_line_valid E raw"
    by (rule ip_line_valid_iff)
  show "(\<not> isl (asn_line E raw)) = asn_line_valid raw"
    by (rule asn_line_valid_iff)
next
  assume "ip_line_valid E raw \<and> isl (time_Parse (trimmed raw ! 5))"
  then show "Allocated (projr (ip_line E raw)) = zeroTime"
    by (auto simp: ip_line_def ip_line_valid_def netcatIPTokensLength_def Let_def
        split: sum.splits)
next
  assume "asn_line_valid raw \<and> isl (time_Parse (trimmed raw ! 3))"
  then show "Allocated (projr (asn_line E raw)) = zeroTime"
    by (auto simp: asn_line_def asn_line_valid_def netcatASNTokensLength_def Let_def
        split: sum.splits)
next
  assume a: "length (Split t CHR ''|'') = 5 \<and> trimmed t ! 3 = []
        \<and> snd (NewCountryFromCode E (trimmed t ! 1)) = None"
  then obtain c where "NewCountryFromCode E (trimmed t ! 1) = (c, None)"
    by (cases "NewCountryFromCode E (trimmed t ! 1)") simp
  with a show "\<not> isl (asn_txt E asn t)" and "Allocated (projr (asn_txt E asn t)) = zeroTime"
    by (simp_all add: asn_txt_def Let_def)
next
  assume a: "length (Split t CHR ''|'') = 5 \<and> trimmed t ! 4 = []
        \<and> \<not> isl (Atoi (trimmed t ! 0)) \<and> snd (NewCountryFromCode E (trimmed t ! 2)) = None
        \<and> \<not> isl (ParseCIDR E (trimmed t ! 1))"
  then obtain c where "NewCountryFromCode E (trimmed t ! 2) = (c, None)"
    by (cases "NewCountryFromCode E (trimmed t ! 2)") simp
  with a show "\<not> isl (ip_txt E ip t)" and "Allocated (projr (ip_txt E ip t)) = zeroTime"
    by (auto simp: ip_txt_def Let_def split: sum.splits)
next
  assume a: "length (Split t CHR ''|'') = 5 \<and> trimmed t ! 3 \<noteq> [] \<and> isl (time_Parse (trimmed t ! 3))"
  then show "isl (asn_txt E asn t)"
    by (auto simp: asn_txt_def Let_def split: sum.splits prod.splits option.splits)
next
  assume a: "length (Split t CHR ''|'') = 5 \<and> trimmed t ! 4 \<noteq> [] \<and> isl (time_Parse (trimmed t ! 4))"
  then show "isl (ip_txt E ip t)"
    by (auto simp: ip_txt_def Let_def split: sum.splits prod.splits option.splits)
next
  assume "length (Split t CHR ''|'') = 5 \<and> snd (NewCountryFromCode E (trimmed t ! 1)) = None
        \<and> trimmed t ! 3 \<noteq> [] \<and> time_Parse (trimmed t ! 3) = Inl e"
  then show "asn_txt E asn t =
      Inl (Errorf ''Could not parse date (%s): %s'' [ArgS (trimmed t ! 3), ArgE e])"
    by (intro asn_txt_date_error) simp_all
next
  assume "length (Split t CHR ''|'') = 5 \<and> \<not> isl (Atoi (trimmed t ! 0))
        \<and> snd (NewCountryFromCode E (trimmed t ! 2)) = None
        \<and> \<not> isl (ParseCIDR E (trimmed t ! 1))
        \<and> trimmed t ! 4 \<noteq> [] \<and> time_Parse (trimmed t ! 4) = Inl e"
  then show "ip_txt E ip t =
      Inl (Errorf ''Could not parse date (%s): %s'' [ArgS (trimmed t ! 4), ArgE e])"
    by (intro ip_txt_date_error) simp_all
next
  assume "length (Split t CHR ''|'') = 5 \<and> snd (NewCountryFromCode E (trimmed t ! 1)) = Some e"
  then show "asn_txt E asn t =
      Inl (Errorf ''Could not parse CountryCode (%s): %s'' [ArgS (trimmed t ! 1), ArgE e])"
    by (intro asn_txt_country_error) simp_all
next
  assume "length (Split t CHR ''|'') = 5 \<and> Atoi (trimmed t ! 0) = Inl e"
  then show "ip_txt E ip t =
      Inl (Errorf ''Could not parse ASN (%s): %s'' [ArgS (trimmed t ! 0), ArgE e])"
    by (intro ip_txt_asn_error) simp_all
next
  assume "length (Split t CHR ''|'') = 5 \<and> \<not> isl (Atoi (trimmed t ! 0))
        \<and> snd (NewCountryFromCode E (trimmed t ! 2)) = Some e"
  then show "ip_txt E ip t =
      Inl (Errorf ''Could not parse CountryCode (%s): %s'' [ArgS (trimmed t ! 2), ArgE e])"
    by (intro ip_txt_country_error) simp_all
next
  assume "length (Split t CHR ''|'') = 5 \<and> \<not> isl (Atoi (trimmed t ! 0))
        \<and> snd (NewCountryFromCode E (trimmed t ! 2)) = None
        \<and> ParseCIDR E (trimmed t ! 1) = Inl e"
  then show "ip_txt E ip t =
      Inl (Errorf ''Could not parse Range (%s): %s'' [ArgS (trimmed t ! 1), ArgE e])"
    by (intro ip_txt_range_error) simp_all
qed

text \<open>
  On the sample texts: the date \<open>2000-13-45\<close> leaves the zero date in the session
  resolver's records and is the date error for the directory resolver; the empty date
  gives the zero date on the directory resolver; the unknown country code \<open>ZZ\<close> before
  that date is the country error, and a malformed asn, country code or range of an
  address lookup is the error of that field.
\<close>

theorem date_field_leniency_on_samples:
  "ip_line_valid (sample zone1) ip_line_bad_date
   \<and> isl (time_Parse (trimmed ip_line_bad_date ! 5))
   \<and> \<not> isl (ip_line (sample zone1) ip_line_bad_date)
   \<and> Allocated (projr (ip_line (sample zone1) ip_line_bad_date)) = zeroTime
   \<and> asn_line_valid asn_txt_bad_date
   \<and> isl (time_Parse (trimmed asn_txt_bad_date ! 3))
   \<and> \<not> isl (asn_line (sample zone1) asn_txt_bad_date)
   \<and> Allocated (projr (asn_line (sample zone1) asn_txt_bad_date)) = zeroTime
   \<and> trimmed asn_txt_no_date ! 3 = []
   \<and> \<not> isl (asn_txt (sample zone1) 23456 asn_txt_no_date)
   \<and> Allocated (projr (asn_txt (sample zone1) 23456 asn_txt_no_date)) = zeroTime
   \<and> trimmed origin_txt2 ! 4 = []
   \<and> \<not> isl (ip_txt (sample zone1) addr1 origin_txt2)
   \<and> Allocated (projr (ip_txt (sample zone1) addr1 origin_txt2)) = zeroTime
   \<and> trimmed asn_txt_bad_date ! 3 \<noteq> []
   \<and> isl (asn_txt (sample zone1) 23456 asn_txt_bad_date)
   \<and> trimmed origin_txt_bad_date ! 4 \<noteq> []
   \<and> isl (time_Parse (trimmed origin_txt_bad_date ! 4))
   \<and> isl (ip_txt (sample zone1) addr1 origin_txt_bad_date)
   \<and> asn_txt (sample zone1) 23456 asn_txt_bad_date =
       Inl (Errorf ''Could not parse date (%s): %s''
              [ArgS ''2000-13-45'', ArgE (TimeParseError ''2000-13-45'')])
   \<and> ip_txt (sample zone1) addr1 origin_txt_bad_date =
       Inl (Errorf ''Could not parse date (%s): %s''
              [ArgS ''2000-13-45'', ArgE (TimeParseError ''2000-13-45'')])
   \<and> snd (NewCountryFromCode (sample zone1) (trimmed asn_txt_bad_country_date ! 1))
       = Some (Foreign ''unknown country code'')
   \<and> isl (time_Parse (trimmed asn_txt_bad_country_date ! 3))
   \<and> asn_txt (sample zone1) 23456 asn_txt_bad_country_date =
       Inl (Errorf ''Could not parse CountryCode (%s): %s''
              [ArgS ''ZZ'', ArgE (Foreign ''unknown country code'')])
   \<and> ip_txt (sample zone1) addr1 origin_txt_bad_asn =
       Inl (Errorf ''Could not parse ASN (%s): %s''
              [ArgS ''AS23456'', ArgE (NumError ''AS23456'' ErrSyntax)])
   \<and> ip_txt (sample zone1) addr1 origin_txt_bad_country =
       Inl (Errorf ''Could not parse CountryCode (%s): %s''
              [ArgS ''ZZ'', ArgE (Foreign ''unknown country code'')])
   \<and> ip_txt (sample zone1) addr1 origin_txt_bad_range =
       Inl (Errorf ''Could not parse Range (%s): %s''
              [ArgS ''192.0.2.0'', ArgE (Foreign ''invalid CIDR address'')])"
proof -
  note A1 = date_field_leniency
    [of "sample zone1" ip_line_bad_date asn_txt_no_date 23456 addr1,
     THEN conjunct1]
  note A3 = date_field_leniency
    [of "sample zone1" ip_line_bad_date asn_txt_no_date 23456 addr1,
     THEN conjunct2, THEN conjunct2, THEN conjunct1]
  note A5 = date_field_leniency
    [of "sample zone1" ip_line_bad_date asn_txt_no_date 23456 addr1,
     THEN conjunct2, THEN conjunct2, THEN conjunct2, THEN conjunct2, THEN conjunct1]
  note B2 = date_field_leniency
    [of "sample zone1" asn_txt_bad_date origin_txt2 23456 addr1,
     THEN conjunct2, THEN conjunct1]
  note B4 = date_field_leniency
    [of "sample zone1" asn_txt_bad_date origin_txt2 23456 addr1,
     THEN conjunct2, THEN conjunct2, THEN conjunct2, THEN conjunct1]
  note B6 = date_field_leniency
    [of "sample zone1" asn_txt_bad_date origin_txt2 23456 addr1,
     THEN conjunct2, THEN conjunct2, THEN conjunct2, THEN conjunct2, THEN conjunct2, THEN conjunct1]
  note C7 = date_field_leniency
    [of "sample zone1" asn_txt_bad_date asn_txt_bad_date 23456 addr1 "TimeParseError ''2000-13-45''",
     THEN conjunct2, THEN conjunct2, THEN conjunct2, THEN conjunct2, THEN conjunct2, THEN conjunct2, THEN conjunct1]
  note C9 = date_field_leniency
    [of "sample zone1" asn_txt_bad_date asn_txt_bad_date 23456 addr1 "TimeParseError ''2000-13-45''",
     THEN conjunct2, THEN conjunct2, THEN conjunct2, THEN conjunct2, THEN conjunct2, THEN conjunct2, THEN conjunct2, THEN conjunct2, THEN conjunct1]
  note D8 = date_field_leniency
    [of "sample zone1" asn_txt_bad_date origin_txt_bad_date 23456 addr1 "TimeParseError ''2000-13-45''",
     THEN conjunct2, THEN conjunct2, THEN conjunct2, THEN conjunct2, THEN conjunct2, THEN conjunct2, THEN conjunct2, THEN conjunct1]
  note D10 = date_field_leniency
    [of "sample zone1" asn_txt_bad_date origin_txt_bad_date 23456 addr1 "TimeParseError ''2000-13-45''",
     THEN conjunct2, THEN conjunct2, THEN conjunct2, THEN conjunct2, THEN conjunct2, THEN conjunct2, THEN conjunct2, THEN conjunct2, THEN conjunct2, THEN conjunct1]
  note F11 = date_field_leniency
    [of "sample zone1" asn_txt_bad_date asn_txt_bad_country_date 23456 addr1 "Foreign ''unknown country code''",
     THEN conjunct2, THEN conjunct2, THEN conjunct2, THEN conjunct2, THEN conjunct2, THEN conjunct2, THEN conjunct2, THEN conjunct2, THEN conjunct2, THEN conjunct2, THEN conjunct1]
  note G12 = date_field_leniency
    [of "sample zone1" asn_txt_bad_date origin_txt_bad_asn 23456 addr1 "NumError ''AS23456'' ErrSyntax",
     THEN conjunct2, THEN conjunct2, THEN conjunct2, THEN conjunct2, THEN conjunct2, THEN conjunct2, THEN conjunct2, THEN conjunct2, THEN conjunct2, THEN conjunct2, THEN conjunct2, THEN conjunct1]
  note H13 = date_field_leniency
    [of "sample zone1" asn_txt_bad_date origin_txt_bad_country 23456 addr1 "Foreign ''unknown country code''",
     THEN conjunct2, THEN conjunct2, THEN conjunct2, THEN conjunct2, THEN conjunct2, THEN conjunct2, THEN conjunct2, THEN conjunct2, THEN conjunct2, THEN conjunct2, THEN conjunct2, THEN conjunct2, THEN conjunct1]
  note I14 = date_field_leniency
    [of "sample zone1" asn_txt_bad_date origin_txt_bad_range 23456 addr1 "Foreign ''invalid CIDR address''",
     THEN conjunct2, THEN conjunct2, THEN conjunct2, THEN conjunct2, THEN conjunct2, THEN conjunct2, THEN conjunct2, THEN conjunct2, THEN conjunct2, THEN conjunct2, THEN conjunct2, THEN conjunct2, THEN conjunct2]
  have v1: "ip_line_valid (sample zone1) ip_line_bad_date"
    and v2: "asn_line_valid asn_txt_bad_date"
    by (simp_all add: ip_line_valid_def asn_line_valid_def count_more_txts no_marker_more_txts
        trimmed_ip_line_bad_date trimmed_asn_txt_bad_date Atoi_23456 sampleCIDR_def)
  have d1: "isl (time_Parse (trimmed ip_line_bad_date ! 5))"
    and d2: "isl (time_Parse (trimmed asn_txt_bad_date ! 3))"
    and d3: "isl (time_Parse (trimmed origin_txt_bad_date ! 4))"
    by (simp_all add: trimmed_ip_line_bad_date trimmed_asn_txt_bad_date
        trimmed_origin_txt_bad_date time_Parse_month_13)
  have e1: "trimmed asn_txt_no_date ! 3 = []" and e2: "trimmed origin_txt2 ! 4 = []"
    and n1: "trimmed asn_txt_bad_date ! 3 \<noteq> []" and n2: "trimmed origin_txt_bad_date ! 4 \<noteq> []"
    by (simp_all add: trimmed_asn_txt_no_date trimmed_origin_txt2 trimmed_asn_txt_bad_date
        trimmed_origin_txt_bad_date)
  have h1: "length (Split asn_txt_no_date CHR ''|'') = 5"
    "snd (NewCountryFromCode (sample zone1) (trimmed asn_txt_no_date ! 1)) = None"
    by (simp_all add: count_more_txts trimmed_asn_txt_no_date sampleCountry_def)
  have h2: "length (Split origin_txt2 CHR ''|'') = 5" "\<not> isl (Atoi (trimmed origin_txt2 ! 0))"
    "snd (NewCountryFromCode (sample zone1) (trimmed origin_txt2 ! 2)) = None"
    "\<not> isl (ParseCIDR (sample zone1) (trimmed origin_txt2 ! 1))"
    by (simp_all add: count_sample_txts trimmed_origin_txt2 sampleCountry_def Atoi_23456
        sampleCIDR_def)
  have h3: "length (Split asn_txt_bad_date CHR ''|'') = 5"
    "length (Split origin_txt_bad_date CHR ''|'') = 5"
    by (simp_all add: count_more_txts)
  from A1 v1 have r1a: "\<not> isl (ip_line (sample zone1) ip_line_bad_date)"
    by simp
  from A3 v1 d1
  have r1b: "Allocated (projr (ip_line (sample zone1) ip_line_bad_date)) = zeroTime"
    by blast
  note r1 = r1a r1b
  from B2 v2 have r2a: "\<not> isl (asn_line (sample zone1) asn_txt_bad_date)"
    by simp
  from B4 v2 d2
  have r2b: "Allocated (projr (asn_line (sample zone1) asn_txt_bad_date)) = zeroTime"
    by blast
  note r2 = r2a r2b
  from A5 h1 e1 have r3: "\<not> isl (asn_txt (sample zone1) 23456 asn_txt_no_date)"
    "Allocated (projr (asn_txt (sample zone1) 23456 asn_txt_no_date)) = zeroTime"
    by blast+
  from B6 h2 e2 have r4: "\<not> isl (ip_txt (sample zone1) addr1 origin_txt2)"
    "Allocated (projr (ip_txt (sample zone1) addr1 origin_txt2)) = zeroTime"
    by blast+
  from C7 h3 n1 d2 have r5: "isl (asn_txt (sample zone1) 23456 asn_txt_bad_date)"
    by blast
  from D8 h3 n2 d3 have r6: "isl (ip_txt (sample zone1) addr1 origin_txt_bad_date)"
    by blast
  have k1: "snd (NewCountryFromCode (sample zone1) (trimmed asn_txt_bad_date ! 1)) = None"
    and k2: "\<not> isl (Atoi (trimmed origin_txt_bad_date ! 0))"
      "snd (NewCountryFromCode (sample zone1) (trimmed origin_txt_bad_date ! 2)) = None"
      "\<not> isl (ParseCIDR (sample zone1) (trimmed origin_txt_bad_date ! 1))"
    and p1: "time_Parse (trimmed asn_txt_bad_date ! 3) = Inl (TimeParseError ''2000-13-45'')"
    and p2: "time_Parse (trimmed origin_txt_bad_date ! 4) = Inl (TimeParseError ''2000-13-45'')"
    by (simp_all add: trimmed_asn_txt_bad_date trimmed_origin_txt_bad_date sampleCountry_def
        sampleCIDR_def Atoi_23456 time_Parse_month_13)
  from C9 h3 k1 n1 p1
  have "asn_txt (sample zone1) 23456 asn_txt_bad_date =
      Inl (Errorf ''Could not parse date (%s): %s''
             [ArgS (trimmed asn_txt_bad_date ! 3), ArgE (TimeParseError ''2000-13-45'')])"
    by blast
  then have r7: "asn_txt (sample zone1) 23456 asn_txt_bad_date =
      Inl (Errorf ''Could not parse date (%s): %s''
             [ArgS ''2000-13-45'', ArgE (TimeParseError ''2000-13-45'')])"
    by (simp add: trimmed_asn_txt_bad_date)
  from D10 h3 k2 n2 p2
  have "ip_txt (sample zone1) addr1 origin_txt_bad_date =
      Inl (Errorf ''Could not parse date (%s): %s''
             [ArgS (trimmed origin_txt_bad_date ! 4), ArgE (TimeParseError ''2000-13-45'')])"
    by blast
  then have r8: "ip_txt (sample zone1) addr1 origin_txt_bad_date =
      Inl (Errorf ''Could not parse date (%s): %s''
             [ArgS ''2000-13-45'', ArgE (TimeParseError ''2000-13-45'')])"
    by (simp add: trimmed_origin_txt_bad_date)
  have c1: "length (Split asn_txt_bad_country_date CHR ''|'') = 5"
    and c2: "snd (NewCountryFromCode (sample zone1) (trimmed asn_txt_bad_country_date ! 1))
             = Some (Foreign ''unknown country code'')"
    and c3: "isl (time_Parse (trimmed asn_txt_bad_country_date ! 3))"
    by (simp_all add: count_strict_txts trimmed_asn_txt_bad_country_date sampleCountry_def
        time_Parse_month_13)
  from F11 c1 c2
  have "asn_txt (sample zone1) 23456 asn_txt_bad_country_date =
      Inl (Errorf ''Could not parse CountryCode (%s): %s''
             [ArgS (trimmed asn_txt_bad_country_date ! 1), ArgE (Foreign ''unknown country code'')])"
    by blast
  then have r9: "asn_txt (sample zone1) 23456 asn_txt_bad_country_date =
      Inl (Errorf ''Could not parse CountryCode (%s): %s''
             [ArgS ''ZZ'', ArgE (Foreign ''unknown country code'')])"
    by (simp add: trimmed_asn_txt_bad_country_date)
  have g1: "length (Split origin_txt_bad_asn CHR ''|'') = 5"
    and g2: "Atoi (trimmed origin_txt_bad_asn ! 0) = Inl (NumError ''AS23456'' ErrSyntax)"
    by (simp_all add: count_strict_txts trimmed_origin_txt_bad_asn Atoi_AS23456)
  from G12 g1 g2
  have "ip_txt (sample zone1) addr1 origin_txt_bad_asn =
      Inl (Errorf ''Could not parse ASN (%s): %s''
             [ArgS (trimmed origin_txt_bad_asn ! 0), ArgE (NumError ''AS23456'' ErrSyntax)])"
    by blast
  then have r10: "ip_txt (sample zone1) addr1 origin_txt_bad_asn =
      Inl (Errorf ''Could not parse ASN (%s): %s''
             [ArgS ''AS23456'', ArgE (NumError ''AS23456'' ErrSyntax)])"
    by (simp add: trimmed_origin_txt_bad_asn)
  have i1: "length (Split origin_txt_bad_country CHR ''|'') = 5"
    and i2: "\<not> isl (Atoi (trimmed origin_txt_bad_country ! 0))"
    and i3: "snd (NewCountryFromCode (sample zone1) (trimmed origin_txt_bad_country ! 2))
             = Some (Foreign ''unknown country code'')"
    by (simp_all add: count_strict_txts trimmed_origin_txt_bad_country Atoi_23456
        sampleCountry_def)
  from H13 i1 i2 i3
  have "ip_txt (sample zone1) addr1 origin_txt_bad_country =
      Inl (Errorf ''Could not parse CountryCode (%s): %s''
             [ArgS (trimmed origin_txt_bad_country ! 2), ArgE (Foreign ''unknown country code'')])"
    by blast
  then have r11: "ip_txt (sample zone1) addr1 origin_txt_bad_country =
      Inl (Errorf ''Could not parse CountryCode (%s): %s''
             [ArgS ''ZZ'', ArgE (Foreign ''unknown country code'')])"
    by (simp add: trimmed_origin_txt_bad_country)
  have j1: "length (Split origin_txt_bad_range CHR ''|'') = 5"
    and j2: "\<not> isl (Atoi (trimmed origin_txt_bad_range ! 0))"
    and j3: "snd (NewCountryFromCode (sample zone1) (trimmed origin_txt_bad_range ! 2)) = None"
    and j4: "ParseCIDR (sample zone1) (trimmed origin_txt_bad_range ! 1)
             = Inl (Foreign ''invalid CIDR address'')"
    by (simp_all add: count_strict_txts trimmed_origin_txt_bad_range Atoi_23456
        sampleCountry_def sampleCIDR_def)
  from I14 j1 j2 j3 j4
  have "ip_txt (sample zone1) addr1 origin_txt_bad_range =
      Inl (Errorf ''Could not parse Range (%s): %s''
             [ArgS (trimmed origin_txt_bad_range ! 1), ArgE (Foreign ''invalid CIDR address'')])"
    by blast
  then have r12: "ip_txt (sample zone1) addr1 origin_txt_bad_range =
      Inl (Errorf ''Could not parse Range (%s): %s''
             [ArgS ''192.0.2.0'', ArgE (Foreign ''invalid CIDR address'')])"
    by (simp add: trimmed_origin_txt_bad_range)
  show ?thesis
    by (intro conjI v1 v2 d1 d2 d3 e1 e2 n1 n2 r1 r2 r3 r4 r5 r6 r7 r8 c2 c3 r9 r10 r11 r12)
qed

text \<open>
  The claim as it stands fails on the directory resolver: the TXT records with the date
  \<open>2000-13-45\<close> make \<open>LookupASN\<close> and \<open>LookupIP\<close> return a date error and no record.
\<close>

theorem malformed_date_fails_directory_lookup:
  "dns_LookupASN (sample [(''AS23456.asn.cymru.com'', [asn_txt_bad_date])]) 23456 [] =
     (Inl (Errorf ''Could not parse date (%s): %s''
             [ArgS ''2000-13-45'', ArgE (TimeParseError ''2000-13-45'')]),
      [''AS23456.asn.cymru.com''])
   \<and> dns_LookupIP (sample [(''1.2.0.192.origin.asn.cymru.com'', [origin_txt_bad_date])]) addr1 [] =
     Return (Inl (Errorf ''Could not parse date (%s): %s''
                    [ArgS ''2000-13-45'', ArgE (TimeParseError ''2000-13-45'')]),
             [''1.2.0.192.origin.asn.cymru.com''])"
  by (simp add: dns_LookupASN_def dns_LookupIP_def sampleTXT_def fmt_d_23456 getLookupName_addr1
      asn_txt_def ip_txt_def count_more_txts trimmed_asn_txt_bad_date trimmed_origin_txt_bad_date
      sampleCountry_def sampleCIDR_def Atoi_23456 time_Parse_month_13)

end
